theory Spec2Isabelle
  imports Main "HOL-Library.AList"
begin

section \<open>Python values\<close>

text \<open>
  A Python \<open>str\<close> is a sequence of Unicode code points, and \<open>len\<close>, slicing,
  \<open>startswith\<close> and \<open>in\<close> count code points. A string is therefore a list of code
  points; \<open>pystr\<close> embeds an ASCII literal.
\<close>

type_synonym ustr = "nat list"

definition pystr :: "string \<Rightarrow> ustr" where
  "pystr s = map of_char s"

text \<open>
  \<open>str.isspace\<close> on one code point: the characters CPython's \<open>str.strip()\<close> removes
  when called without an argument.
\<close>

definition isspace :: "nat \<Rightarrow> bool" where
  "isspace c \<longleftrightarrow>
     (9 \<le> c \<and> c \<le> 13) \<or> (28 \<le> c \<and> c \<le> 32) \<or> c = 133 \<or> c = 160 \<or> c = 5760 \<or>
     (8192 \<le> c \<and> c \<le> 8202) \<or> c = 8232 \<or> c = 8233 \<or> c = 8239 \<or> c = 8287 \<or> c = 12288"

definition lstrip :: "ustr \<Rightarrow> ustr" where
  "lstrip s = dropWhile isspace s"

definition rstrip :: "ustr \<Rightarrow> ustr" where
  "rstrip s = rev (dropWhile isspace (rev s))"

definition strip :: "ustr \<Rightarrow> ustr" where
  "strip s = rstrip (lstrip s)"

definition startswith :: "ustr \<Rightarrow> ustr \<Rightarrow> bool" where
  "startswith s p \<longleftrightarrow> take (length p) s = p"

text \<open>\<open>sub in s\<close> for two strings: \<open>sub\<close> occurs as a contiguous substring of \<open>s\<close>.\<close>

fun py_in :: "ustr \<Rightarrow> ustr \<Rightarrow> bool" where
  "py_in sub [] = (sub = [])"
| "py_in sub (c # cs) = (startswith (c # cs) sub \<or> py_in sub cs)"

text \<open>\<open>sep.join(xs)\<close> for a list of strings.\<close>

fun join :: "ustr \<Rightarrow> ustr list \<Rightarrow> ustr" where
  "join sep [] = []"
| "join sep [x] = x"
| "join sep (x # y # ys) = x @ sep @ join sep (y # ys)"

text \<open>
  Truthiness of an optional string (\<open>None\<close> or a \<open>str\<close>): \<open>None\<close> and the empty string
  are falsy. \<open>a or b\<close> yields \<open>a\<close> when it is truthy and \<open>b\<close> otherwise.
\<close>

definition truthy :: "ustr option \<Rightarrow> bool" where
  "truthy v \<longleftrightarrow> (case v of None \<Rightarrow> False | Some s \<Rightarrow> s \<noteq> [])"

definition py_or :: "ustr option \<Rightarrow> ustr option \<Rightarrow> ustr option" where
  "py_or a b = (if truthy a then a else b)"

text \<open>
  A Python \<open>dict\<close> keeps its keys in insertion order; assigning to an existing key
  replaces the value in place, assigning to a new key appends. That is an association
  list under \<open>AList.update\<close>. \<open>d.get(k, default)\<close> and \<open>d.get(k)\<close> read it.
\<close>

type_synonym ('k, 'v) dict = "('k \<times> 'v) list"

definition dict_set :: "'k \<Rightarrow> 'v \<Rightarrow> ('k, 'v) dict \<Rightarrow> ('k, 'v) dict" where
  "dict_set k v d = AList.update k v d"

definition dict_get_default :: "('k, 'v) dict \<Rightarrow> 'k \<Rightarrow> 'v \<Rightarrow> 'v" where
  "dict_get_default d k dflt = (case map_of d k of None \<Rightarrow> dflt | Some v \<Rightarrow> v)"

definition dict_get :: "('k, 'v option) dict \<Rightarrow> 'k \<Rightarrow> 'v option" where
  "dict_get d k = dict_get_default d k None"

section \<open>Conversation context\<close>

text \<open>
  The entities of a turn are a dict from field name to \<open>None\<close> or a string. A key can
  be absent, present with \<open>None\<close>, or present with a string.
\<close>

type_synonym entities = "(ustr, ustr option) dict"

record interaction =
  query :: ustr
  intent :: ustr
  entities :: entities
  timestamp :: nat

record ctx =
  history :: "interaction list"
  last_course :: "ustr option"
  last_teacher :: "ustr option"
  last_day :: "ustr option"

text \<open>\<open>self.context\<close> as \<open>__init__\<close> creates it.\<close>

definition init_context :: ctx where
  "init_context = \<lparr>history = [], last_course = None, last_teacher = None, last_day = None\<rparr>"

text \<open>\<open>xs[-5:]\<close>: the last five elements, all of them when there are fewer.\<close>

definition last5 :: "'a list \<Rightarrow> 'a list" where
  "last5 xs = drop (length xs - 5) xs"

text \<open>
  \<open>_update_context\<close>; \<open>now\<close> is the value of \<open>datetime.now()\<close> at the call. The context
  is returned updated.
\<close>

definition update_context :: "ctx \<Rightarrow> ustr \<Rightarrow> ustr \<Rightarrow> entities \<Rightarrow> nat \<Rightarrow> ctx" where
  "update_context c q i es now =
     (let interaction = \<lparr>query = q, intent = i, entities = es, timestamp = now\<rparr>;
          h = history c @ [interaction];
          h' = (if length h > 5 then last5 h else h)
      in \<lparr>history = h',
          last_course = dict_get_default es (pystr ''course'') (last_course c),
          last_teacher = dict_get_default es (pystr ''teacher'') (last_teacher c),
          last_day = dict_get_default es (pystr ''day'') (last_day c)\<rparr>)"

section \<open>Schedule data\<close>

text \<open>
  A cell of the spreadsheet as pandas hands it over: a \<open>str\<close>, or a value that is not a
  \<open>str\<close> (an integer, a float, a date or time object). \<open>isinstance(x, str)\<close> tells them
  apart. Of a value that is not a string the code uses only what \<open>str(x)\<close> prints for
  it (in an f-string) and its truth value, so \<open>Other\<close> carries these two: the float
  201.0 is \<open>Other\<close> of the text \<open>201.0\<close> and true. Two such values of one column that
  compare equal are taken to print alike.
\<close>

datatype cell = Str ustr | Other ustr bool


record pytime =
  hour :: nat
  minute :: nat
  second :: nat

record pydate =
  year :: nat
  month :: nat
  dayofmonth :: nat

text \<open>One row of the DataFrame \<open>load_schedule_data\<close> returns; \<open>None\<close> is \<open>None\<close>/\<open>NaT\<close>.\<close>

record row =
  Course :: cell
  Teacher :: cell
  Day :: cell
  Time :: "pytime option"
  Room :: cell
  Exam_Type :: cell
  Exam_Date :: "pydate option"
  Exam_Time :: "pytime option"

text \<open>\<open>Series.unique()\<close>: the distinct values in order of first appearance.\<close>

fun unique :: "'a list \<Rightarrow> 'a list" where
  "unique [] = []"
| "unique (x # xs) = x # unique (filter (\<lambda>y. y \<noteq> x) xs)"

datatype error = TypeError | KeyError | ValueError

section \<open>Entity vocabulary\<close>

text \<open>
  \<open>_normalize_text\<close> is \<open>text.lower().strip()\<close>. \<open>str.lower\<close> is the Unicode lowercasing of
  the Python runtime; it is a parameter \<open>lower\<close> of every function that normalizes.
  \<open>ascii_lower\<close> is what it does on ASCII text, for concrete runs.
\<close>

definition normalize_text :: "(ustr \<Rightarrow> ustr) \<Rightarrow> ustr \<Rightarrow> ustr" where
  "normalize_text lower t = strip (lower t)"

definition ascii_lower :: "ustr \<Rightarrow> ustr" where
  "ascii_lower s = map (\<lambda>c. if 65 \<le> c \<and> c \<le> 90 then c + 32 else c) s"

text \<open>\<open>{self._normalize_text(course): course for course in courses if isinstance(course, str)}\<close>\<close>

fun courses_loop :: "(ustr \<Rightarrow> ustr) \<Rightarrow> cell list \<Rightarrow> (ustr, ustr) dict \<Rightarrow> (ustr, ustr) dict" where
  "courses_loop lower [] m = m"
| "courses_loop lower (Str course # cs) m =
     courses_loop lower cs (dict_set (normalize_text lower course) course m)"
| "courses_loop lower (Other shown tv # cs) m = courses_loop lower cs m"

definition preprocess_courses :: "(ustr \<Rightarrow> ustr) \<Rightarrow> row list \<Rightarrow> (ustr, ustr) dict" where
  "preprocess_courses lower df = courses_loop lower (unique (map Course df)) []"

fun teachers_loop :: "(ustr \<Rightarrow> ustr) \<Rightarrow> cell list \<Rightarrow> (ustr, ustr) dict \<Rightarrow> (ustr, ustr) dict" where
  "teachers_loop lower [] m = m"
| "teachers_loop lower (Str teacher # ts) m =
     teachers_loop lower ts
       (if teacher \<noteq> pystr ''-'' then dict_set (normalize_text lower teacher) teacher m else m)"
| "teachers_loop lower (Other shown tv # ts) m = teachers_loop lower ts m"

definition preprocess_teachers :: "(ustr \<Rightarrow> ustr) \<Rightarrow> row list \<Rightarrow> (ustr, ustr) dict" where
  "preprocess_teachers lower df = teachers_loop lower (unique (map Teacher df)) []"

text \<open>
  The five title prefixes of \<open>_preprocess_teachers_no_titles\<close>, in the order of the
  source. Their non-ASCII letters are written by code point: 231 (c with cedilla),
  214 (capital O with diaeresis), 287 (g with breve), 246 (o with diaeresis).
\<close>

definition title_prefixes :: "ustr list" where
  "title_prefixes =
     [pystr ''Do'' @ [231] @ pystr ''. Dr.'',
      [214, 287] @ pystr ''r. G'' @ [246] @ pystr ''r. Dr.'',
      [214, 287] @ pystr ''r. G'' @ [246] @ pystr ''r.'',
      pystr ''Prof. Dr.'',
      pystr ''Dr.'']"

text \<open>
  The inner loop of \<open>_preprocess_teachers_no_titles\<close>:
  \<^verbatim>\<open>for prefix in title_prefixes:
    if no_title.startswith(prefix):
        no_title = no_title[len(prefix):].strip()\<close>
\<close>

fun strip_prefixes :: "ustr list \<Rightarrow> ustr \<Rightarrow> ustr" where
  "strip_prefixes [] no_title = no_title"
| "strip_prefixes (prefix # ps) no_title =
     strip_prefixes ps
       (if startswith no_title prefix then strip (drop (length prefix) no_title) else no_title)"

fun no_titles_loop :: "(ustr \<Rightarrow> ustr) \<Rightarrow> cell list \<Rightarrow> (ustr, ustr) dict \<Rightarrow> (ustr, ustr) dict" where
  "no_titles_loop lower [] no_title_map = no_title_map"
| "no_titles_loop lower (Str teacher # ts) no_title_map =
     no_titles_loop lower ts
       (if teacher \<noteq> pystr ''-''
        then dict_set (normalize_text lower (strip_prefixes title_prefixes teacher)) teacher
               no_title_map
        else no_title_map)"
| "no_titles_loop lower (Other shown tv # ts) no_title_map =
     no_titles_loop lower ts no_title_map"

definition preprocess_teachers_no_titles :: "(ustr \<Rightarrow> ustr) \<Rightarrow> row list \<Rightarrow> (ustr, ustr) dict" where
  "preprocess_teachers_no_titles lower df = no_titles_loop lower (unique (map Teacher df)) []"

text \<open>The chatbot object after \<open>__init__\<close>, without the models it loads.\<close>

record bot =
  df :: "row list"
  normalized_courses :: "(ustr, ustr) dict"
  normalized_teachers :: "(ustr, ustr) dict"
  normalized_teachers_no_titles :: "(ustr, ustr) dict"

definition init_bot :: "(ustr \<Rightarrow> ustr) \<Rightarrow> row list \<Rightarrow> bot" where
  "init_bot lower rows =
     \<lparr>df = rows,
      normalized_courses = preprocess_courses lower rows,
      normalized_teachers = preprocess_teachers lower rows,
      normalized_teachers_no_titles = preprocess_teachers_no_titles lower rows\<rparr>"

section \<open>Fuzzy matching\<close>

text \<open>
  \<open>process.extractOne(query, choices, scorer=fuzz.token_sort_ratio)\<close> of the fuzzywuzzy
  library scores every choice against the query and returns the pair \<open>(choice, score)\<close>
  that Python's \<open>max\<close> picks by score: the first of the highest-scoring choices. It
  returns \<open>None\<close> when there is no choice. The scorer (an integer from 0 to 100,
  computed after the library's own preprocessing of both strings) is the parameter
  \<open>scorer\<close>.
\<close>

fun first_max :: "('a \<times> nat) \<Rightarrow> ('a \<times> nat) list \<Rightarrow> ('a \<times> nat)" where
  "first_max best [] = best"
| "first_max best (x # xs) = first_max (if snd x > snd best then x else best) xs"

definition extractOne :: "(ustr \<Rightarrow> ustr \<Rightarrow> nat) \<Rightarrow> ustr \<Rightarrow> ustr list \<Rightarrow> (ustr \<times> nat) option" where
  "extractOne scorer q choices =
     (case map (\<lambda>c. (c, scorer q c)) choices of
        [] \<Rightarrow> None
      | x # xs \<Rightarrow> Some (first_max x xs))"

text \<open>
  \<open>fuzzy_match_entity\<close>. Unpacking \<open>match, score\<close> from \<open>None\<close> raises \<open>TypeError\<close>;
  \<open>candidates[match]\<close> raises \<open>KeyError\<close> on a missing key.
\<close>

definition fuzzy_match_entity ::
  "(ustr \<Rightarrow> ustr) \<Rightarrow> (ustr \<Rightarrow> ustr \<Rightarrow> nat) \<Rightarrow> ustr \<Rightarrow> (ustr, ustr) dict \<Rightarrow> nat \<Rightarrow> error + ustr option" where
  "fuzzy_match_entity lower scorer t candidates threshold =
     (if t = [] then Inr None
      else let normalized_text = normalize_text lower t
           in case extractOne scorer normalized_text (map fst candidates) of
                None \<Rightarrow> Inl TypeError
              | Some (match, score) \<Rightarrow>
                  if score \<ge> threshold
                  then (case map_of candidates match of
                          None \<Rightarrow> Inl KeyError
                        | Some v \<Rightarrow> Inr (Some v))
                  else Inr None)"

section \<open>Entity extraction\<close>

datatype lang = en | tr

definition detect_language :: "(ustr \<Rightarrow> ustr) \<Rightarrow> ustr \<Rightarrow> lang" where
  "detect_language lower t =
     (let tr_words = [pystr ''ders'', pystr ''hoca'', pystr ''vize'', pystr ''final'']
      in if list_ex (\<lambda>word. py_in word (lower t)) tr_words then tr else en)"

text \<open>
  What the spaCy pipeline and the phrase matcher return for a text, as far as
  \<open>extract_entities\<close> reads it: \<open>ents\<close> are the pairs \<open>(ent.text, ent.label_)\<close> of
  \<open>doc.ents\<close>, \<open>tokens\<close> the pairs \<open>(token.text, token.lemma_)\<close> of the document, and
  \<open>matches\<close> the pairs (label of the match id, \<open>doc[start:end].text\<close>) of
  \<open>matcher(doc)\<close>. The pipeline of each language is the parameter \<open>nlp\<close>.
\<close>

record doc =
  ents :: "(ustr \<times> ustr) list"
  tokens :: "(ustr \<times> ustr) list"
  matches :: "(ustr \<times> ustr) list"

definition empty_entities :: entities where
  "empty_entities =
     [(pystr ''course'', None), (pystr ''teacher'', None), (pystr ''exam_type'', None),
      (pystr ''day'', None), (pystr ''time'', None), (pystr ''building'', None)]"

definition pronouns :: "lang \<Rightarrow> ustr list" where
  "pronouns l =
     (case l of
        en \<Rightarrow> [pystr ''he'', pystr ''she'', pystr ''her'', pystr ''him'', pystr ''it'']
      | tr \<Rightarrow> [pystr ''o'', pystr ''onun'', pystr ''ona''])"

definition is_followup :: "lang \<Rightarrow> ustr \<Rightarrow> bool" where
  "is_followup l normalized \<longleftrightarrow>
     list_ex (\<lambda>pronoun. py_in pronoun normalized) (pronouns l) \<or>
     py_in (pystr ''about'') normalized \<or>
     py_in (pystr ''hakk'' @ [305] @ pystr ''nda'') normalized"

text \<open>
  \<^verbatim>\<open>for norm_name, original in vocabulary.items():
    if norm_name in normalized:
        entities[field] = original
        break\<close>
  \<open>exact_match\<close> is the value assigned, \<open>None\<close> when the loop assigns nothing.
\<close>

fun exact_match :: "(ustr, ustr) dict \<Rightarrow> ustr \<Rightarrow> ustr option" where
  "exact_match [] normalized = None"
| "exact_match ((norm_name, original) # items) normalized =
     (if py_in norm_name normalized then Some original else exact_match items normalized)"

definition exact_stage :: "bot \<Rightarrow> ustr \<Rightarrow> entities \<Rightarrow> entities" where
  "exact_stage b normalized es =
     (let es1 = (case exact_match (normalized_courses b) normalized of
                   None \<Rightarrow> es
                 | Some original \<Rightarrow> dict_set (pystr ''course'') (Some original) es)
      in case exact_match (normalized_teachers b) normalized of
           None \<Rightarrow> es1
         | Some original \<Rightarrow> dict_set (pystr ''teacher'') (Some original) es1)"

text \<open>The fuzzy fallback (source lines 158 to 163); every call may raise.\<close>

definition fuzzy_stage ::
  "(ustr \<Rightarrow> ustr) \<Rightarrow> (ustr \<Rightarrow> ustr \<Rightarrow> nat) \<Rightarrow> bot \<Rightarrow> ustr \<Rightarrow> entities \<Rightarrow> error + entities" where
  "fuzzy_stage lower scorer b normalized es =
     (case (if \<not> truthy (dict_get es (pystr ''course''))
            then (case fuzzy_match_entity lower scorer normalized (normalized_courses b) 70 of
                    Inl e \<Rightarrow> Inl e
                  | Inr c \<Rightarrow> Inr (dict_set (pystr ''course'') c es))
            else Inr es) of
        Inl e \<Rightarrow> Inl e
      | Inr es1 \<Rightarrow>
          if \<not> truthy (dict_get es1 (pystr ''teacher''))
          then (case fuzzy_match_entity lower scorer normalized (normalized_teachers b) 70 of
                  Inl e \<Rightarrow> Inl e
                | Inr t1 \<Rightarrow>
                    if \<not> truthy t1
                    then (case fuzzy_match_entity lower scorer normalized
                                 (normalized_teachers_no_titles b) 70 of
                            Inl e \<Rightarrow> Inl e
                          | Inr t2 \<Rightarrow> Inr (dict_set (pystr ''teacher'') t2 es1))
                    else Inr (dict_set (pystr ''teacher'') t1 es1))
          else Inr es1)"

text \<open>The loop over \<open>doc.ents\<close> (source lines 165 to 180).\<close>

fun ner_loop ::
  "(ustr \<Rightarrow> ustr) \<Rightarrow> (ustr \<Rightarrow> ustr \<Rightarrow> nat) \<Rightarrow> bot \<Rightarrow> (ustr \<times> ustr) list \<Rightarrow> entities \<Rightarrow> error + entities" where
  "ner_loop lower scorer b [] es = Inr es"
| "ner_loop lower scorer b ((ent_text, label) # rest) es =
     (if label = pystr ''COURSE'' then
        (case fuzzy_match_entity lower scorer ent_text (normalized_teachers_no_titles b) 70 of
           Inl e \<Rightarrow> Inl e
         | Inr teacher_match \<Rightarrow>
             if truthy teacher_match
             then ner_loop lower scorer b rest
                    (dict_set (pystr ''course'') None
                       (dict_set (pystr ''teacher'') teacher_match es))
             else ner_loop lower scorer b rest (dict_set (pystr ''course'') (Some ent_text) es))
      else if label = pystr ''TEACHER'' then
        ner_loop lower scorer b rest (dict_set (pystr ''teacher'') (Some ent_text) es)
      else if label = pystr ''DATE'' then
        ner_loop lower scorer b rest (dict_set (pystr ''day'') (Some ent_text) es)
      else if label = pystr ''TIME'' then
        ner_loop lower scorer b rest (dict_set (pystr ''time'') (Some ent_text) es)
      else if label = pystr ''PERSON'' \<and> \<not> truthy (dict_get es (pystr ''teacher'')) then
        (case fuzzy_match_entity lower scorer ent_text (normalized_teachers_no_titles b) 70 of
           Inl e \<Rightarrow> Inl e
         | Inr m \<Rightarrow> ner_loop lower scorer b rest (dict_set (pystr ''teacher'') m es))
      else ner_loop lower scorer b rest es)"

text \<open>
  The follow-up loop (source lines 183 to 189), over the history already reversed:
  \<^verbatim>\<open>for interaction in reversed(self.context['history']):
    if not entities['teacher'] and interaction['entities'].get('teacher'):
        entities['teacher'] = interaction['entities']['teacher']
        break
    if not entities['course'] and interaction['entities'].get('course'):
        entities['course'] = interaction['entities']['course']
        break\<close>
\<close>

fun followup_loop :: "interaction list \<Rightarrow> entities \<Rightarrow> entities" where
  "followup_loop [] es = es"
| "followup_loop (i # rest) es =
     (if \<not> truthy (dict_get es (pystr ''teacher'')) \<and>
         truthy (dict_get (entities i) (pystr ''teacher''))
      then dict_set (pystr ''teacher'') (dict_get (entities i) (pystr ''teacher'')) es
      else if \<not> truthy (dict_get es (pystr ''course'')) \<and>
              truthy (dict_get (entities i) (pystr ''course''))
      then dict_set (pystr ''course'') (dict_get (entities i) (pystr ''course'')) es
      else followup_loop rest es)"

definition followup_stage :: "bool \<Rightarrow> interaction list \<Rightarrow> entities \<Rightarrow> entities" where
  "followup_stage followup hist es =
     (if followup \<or>
         \<not> (truthy (dict_get es (pystr ''course'')) \<or> truthy (dict_get es (pystr ''teacher'')))
      then followup_loop (rev hist) es
      else es)"

definition turkish_days :: "(ustr, ustr) dict" where
  "turkish_days =
     [(pystr ''pazartesi'', pystr ''Pazartesi''),
      (pystr ''sal'' @ [305], pystr ''Sal'' @ [305]),
      ([231] @ pystr ''ar'' @ [351] @ pystr ''amba'', [199] @ pystr ''ar'' @ [351] @ pystr ''amba''),
      (pystr ''per'' @ [351] @ pystr ''embe'', pystr ''Per'' @ [351] @ pystr ''embe''),
      (pystr ''cuma'', pystr ''Cuma''),
      (pystr ''cumartesi'', pystr ''Cumartesi''),
      (pystr ''pazar'', pystr ''Pazar'')]"

definition keyword_to_entity :: "(ustr, ustr) dict" where
  "keyword_to_entity =
     [(pystr ''course'', pystr ''course''),
      (pystr ''exam'', pystr ''exam_type''),
      (pystr ''teacher'', pystr ''teacher'')]"

text \<open>\<open>UNIVERSITY_TERMS['buildings']\<close> of \<open>config.py\<close>.\<close>

definition buildings :: "ustr list" where
  "buildings =
     [pystr ''201'', pystr ''202'', pystr ''203'', pystr ''204'', pystr ''206'', pystr ''UZEM'',
      pystr ''Seminer Odas'' @ [305]]"

definition exam_keywords :: "lang \<Rightarrow> ustr list" where
  "exam_keywords l =
     (case l of
        en \<Rightarrow> [pystr ''midterm'', pystr ''final'', pystr ''makeup'']
      | tr \<Rightarrow> [pystr ''vize'', pystr ''final'', pystr ''b'' @ [252] @ pystr ''t'' @ [252] @ pystr ''nleme''])"

text \<open>The four lexical passes after the follow-up resolution (source lines 191 to 229).\<close>

definition day_stage :: "(ustr \<Rightarrow> ustr) \<Rightarrow> doc \<Rightarrow> entities \<Rightarrow> entities" where
  "day_stage lower d es =
     fold (\<lambda>(token_text, lemma) es'.
             case map_of turkish_days (lower token_text) of
               None \<Rightarrow> es'
             | Some name \<Rightarrow> dict_set (pystr ''day'') (Some name) es')
          (tokens d) es"

definition keyword_stage :: "(ustr \<Rightarrow> ustr) \<Rightarrow> doc \<Rightarrow> entities \<Rightarrow> entities" where
  "keyword_stage lower d es =
     fold (\<lambda>(label, span_text) es'.
             case map_of keyword_to_entity (lower label) of
               None \<Rightarrow> es'
             | Some key \<Rightarrow>
                 if key = pystr ''course'' \<and> truthy (dict_get es' (pystr ''teacher''))
                 then es'
                 else dict_set key (Some span_text) es')
          (matches d) es"

definition building_stage :: "doc \<Rightarrow> entities \<Rightarrow> entities" where
  "building_stage d es =
     fold (\<lambda>(token_text, lemma) es'.
             if token_text \<in> set buildings
             then dict_set (pystr ''building'') (Some token_text) es'
             else es')
          (tokens d) es"

definition exam_stage :: "(ustr \<Rightarrow> ustr) \<Rightarrow> lang \<Rightarrow> doc \<Rightarrow> entities \<Rightarrow> entities" where
  "exam_stage lower l d es =
     fold (\<lambda>(token_text, lemma) es'.
             if lower lemma \<in> set (exam_keywords l)
             then dict_set (pystr ''exam_type'') (Some (lower lemma)) es'
             else es')
          (tokens d) es"

definition extract_entities ::
  "(ustr \<Rightarrow> ustr) \<Rightarrow> (ustr \<Rightarrow> ustr \<Rightarrow> nat) \<Rightarrow> (lang \<Rightarrow> ustr \<Rightarrow> doc) \<Rightarrow> bot \<Rightarrow> ctx \<Rightarrow> ustr \<Rightarrow>
     error + entities" where
  "extract_entities lower scorer nlp b c t =
     (let normalized = normalize_text lower t;
          l = detect_language lower t;
          d = nlp l t;
          followup = is_followup l normalized
      in case fuzzy_stage lower scorer b normalized (exact_stage b normalized empty_entities) of
           Inl e \<Rightarrow> Inl e
         | Inr es2 \<Rightarrow>
             (case ner_loop lower scorer b (ents d) es2 of
                Inl e \<Rightarrow> Inl e
              | Inr es3 \<Rightarrow>
                  Inr (exam_stage lower l d
                         (building_stage d
                            (keyword_stage lower d
                               (day_stage lower d
                                  (followup_stage followup (history c) es3)))))))"

section \<open>Loading the schedule\<close>

text \<open>
  \<open>pd.to_datetime(x, format=fmt, errors='coerce')\<close> is the parameter \<open>to_datetime\<close>: it
  yields a timestamp, \<open>NaT\<close> when the value does not match the format, or it raises.
\<close>

datatype parsed = Timestamp pydate pytime | NaT | Raises

text \<open>\<open>x.replace('.', ':')\<close> and \<open>x.split('-')[0]\<close>.\<close>

definition replace_dots :: "ustr \<Rightarrow> ustr" where
  "replace_dots x = map (\<lambda>c. if c = 46 then 58 else c) x"

definition before_dash :: "ustr \<Rightarrow> ustr" where
  "before_dash x = takeWhile (\<lambda>c. c \<noteq> 45) x"

definition clean_time :: "cell \<Rightarrow> cell" where
  "clean_time x =
     (case x of
        Str s \<Rightarrow>
          if strip s \<noteq> [] then
            (let x1 = replace_dots s;
                 x2 = (if 45 \<in> set x1 then strip (before_dash x1) else x1)
             in Str x2)
          else Str []
      | Other shown tv \<Rightarrow> Str [])"

text \<open>
  \<open>to_time_obj\<close>: the \<open>try\<close> block returns \<open>None\<close> as soon as a call raises, so a raise
  of the first call is not followed by the second.
\<close>

definition to_time_obj :: "(cell \<Rightarrow> ustr \<Rightarrow> parsed) \<Rightarrow> cell \<Rightarrow> pytime option" where
  "to_time_obj to_datetime time_str =
     (case time_str of
        Str s \<Rightarrow>
          if s \<noteq> [] then
            (case to_datetime (Str s) (pystr ''%H:%M:%S'') of
               Timestamp d t \<Rightarrow> Some t
             | Raises \<Rightarrow> None
             | NaT \<Rightarrow>
                 (case to_datetime (Str s) (pystr ''%H:%M'') of
                    Timestamp d t \<Rightarrow> Some t
                  | Raises \<Rightarrow> None
                  | NaT \<Rightarrow> None))
          else None
      | Other shown tv \<Rightarrow> None)"

text \<open>
  A row of the sheet as \<open>read_excel\<close> returns it, with all eight required columns; an
  empty cell (\<open>NaN\<close>) is \<open>None\<close>, and \<open>fillna('')\<close> turns it into the empty string.
\<close>

record raw_row =
  raw_Course :: "cell option"
  raw_Teacher :: "cell option"
  raw_Day :: "cell option"
  raw_Time :: "cell option"
  raw_Room :: "cell option"
  raw_Exam_Type :: "cell option"
  raw_Exam_Date :: "cell option"
  raw_Exam_Time :: "cell option"

definition fillna :: "cell option \<Rightarrow> cell" where
  "fillna x = (case x of None \<Rightarrow> Str [] | Some v \<Rightarrow> v)"

definition exam_type_mapping :: "(cell, cell) dict" where
  "exam_type_mapping =
     [(Str (pystr ''Lecture''), Str (pystr ''Lecture'')),
      (Str (pystr ''Midterm''), Str (pystr ''Midterm'')),
      (Str (pystr ''Final''), Str (pystr ''Final'')),
      (Str (pystr ''Makeup''), Str (pystr ''Makeup''))]"

definition load_time_cell :: "(cell \<Rightarrow> ustr \<Rightarrow> parsed) \<Rightarrow> cell option \<Rightarrow> pytime option" where
  "load_time_cell to_datetime x = to_time_obj to_datetime (clean_time (fillna x))"

definition load_row :: "(cell \<Rightarrow> ustr \<Rightarrow> parsed) \<Rightarrow> raw_row \<Rightarrow> error + row" where
  "load_row to_datetime r =
     (case to_datetime (fillna (raw_Exam_Date r)) (pystr ''%d.%m.%Y'') of
        Raises \<Rightarrow> Inl ValueError
      | dt \<Rightarrow>
          Inr \<lparr>Course = fillna (raw_Course r),
               Teacher = fillna (raw_Teacher r),
               Day = fillna (raw_Day r),
               Time = load_time_cell to_datetime (raw_Time r),
               Room = fillna (raw_Room r),
               Exam_Type = dict_get_default exam_type_mapping (fillna (raw_Exam_Type r))
                             (fillna (raw_Exam_Type r)),
               Exam_Date = (case dt of Timestamp d t \<Rightarrow> Some d | _ \<Rightarrow> None),
               Exam_Time = load_time_cell to_datetime (raw_Exam_Time r)\<rparr>)"

fun load_rows :: "(cell \<Rightarrow> ustr \<Rightarrow> parsed) \<Rightarrow> raw_row list \<Rightarrow> error + row list" where
  "load_rows to_datetime [] = Inr []"
| "load_rows to_datetime (r # rs) =
     (case load_row to_datetime r of
        Inl e \<Rightarrow> Inl e
      | Inr x \<Rightarrow> (case load_rows to_datetime rs of Inl e \<Rightarrow> Inl e | Inr xs \<Rightarrow> Inr (x # xs)))"

text \<open>
  \<open>load_schedule_data\<close> from the point where the sheet has been read and has its
  required columns.
\<close>

definition load_schedule_data :: "(cell \<Rightarrow> ustr \<Rightarrow> parsed) \<Rightarrow> raw_row list \<Rightarrow> error + row list" where
  "load_schedule_data to_datetime sheet = load_rows to_datetime sheet"

section \<open>Responses\<close>

text \<open>
  Decimal digits of a number, \<open>str\<close> of a cell as an f-string prints it, the truth value
  of a cell, and two-digit zero padding.
\<close>

fun digits :: "nat \<Rightarrow> ustr" where
  "digits n = (if n < 10 then [48 + n] else digits (n div 10) @ [48 + n mod 10])"

declare digits.simps [simp del]

definition str_cell :: "cell \<Rightarrow> ustr" where
  "str_cell x =
     (case x of
        Str s \<Rightarrow> s
      | Other shown tv \<Rightarrow> shown)"

definition cell_truthy :: "cell \<Rightarrow> bool" where
  "cell_truthy x \<longleftrightarrow> (case x of Str s \<Rightarrow> s \<noteq> [] | Other shown tv \<Rightarrow> tv)"

definition pad2 :: "nat \<Rightarrow> ustr" where
  "pad2 n = (if n < 10 then 48 # digits n else digits n)"

text \<open>\<open>_format_time\<close>: \<open>strftime('%H:%M')\<close> of a time, \<open>"time not set"\<close> for \<open>None\<close>.\<close>

definition format_time :: "pytime option \<Rightarrow> ustr" where
  "format_time time_obj =
     (case time_obj of
        Some t \<Rightarrow> pad2 (hour t) @ pystr '':'' @ pad2 (minute t)
      | None \<Rightarrow> pystr ''time not set'')"

text \<open>\<open>strftime("%d.%m.%Y")\<close> of an exam date.\<close>

definition format_date :: "pydate \<Rightarrow> ustr" where
  "format_date d = pad2 (dayofmonth d) @ pystr ''.'' @ pad2 (month d) @ pystr ''.'' @ digits (year d)"

text \<open>\<open>', '.join(xs)\<close> on cells raises \<open>TypeError\<close> when an item is not a \<open>str\<close>.\<close>

fun strs_of :: "cell list \<Rightarrow> ustr list option" where
  "strs_of [] = Some []"
| "strs_of (Str s # xs) = (case strs_of xs of None \<Rightarrow> None | Some ys \<Rightarrow> Some (s # ys))"
| "strs_of (Other shown tv # xs) = None"

definition join_cells :: "ustr \<Rightarrow> cell list \<Rightarrow> error + ustr" where
  "join_cells sep xs = (case strs_of xs of None \<Rightarrow> Inl TypeError | Some ys \<Rightarrow> Inr (join sep ys))"

text \<open>\<open>random.choice(xs)\<close> on a non-empty list, the random draw being the number \<open>r\<close>.\<close>

definition random_choice :: "nat \<Rightarrow> 'a list \<Rightarrow> 'a" where
  "random_choice r xs = xs ! (r mod length xs)"

text \<open>\<open>predict_intent\<close>; the vectorizer and classifier together are the parameter \<open>model\<close>.\<close>

definition predict_intent :: "(ustr \<Rightarrow> ustr) \<Rightarrow> (ustr \<Rightarrow> ustr) \<Rightarrow> ustr \<Rightarrow> ustr" where
  "predict_intent lower model t = model (normalize_text lower t)"

definition is_lecture :: "row \<Rightarrow> bool" where
  "is_lecture r \<longleftrightarrow> Exam_Type r = Str (pystr ''Lecture'')"

text \<open>The \<open>class_schedule\<close> branch (source lines 243 to 256).\<close>

definition class_schedule :: "bot \<Rightarrow> ctx \<Rightarrow> entities \<Rightarrow> ustr" where
  "class_schedule b c es =
     (let course = py_or (dict_get es (pystr ''course'')) (last_course c);
          day = py_or (dict_get es (pystr ''day'')) (last_day c)
      in if truthy course then
           (let df1 = filter (\<lambda>r. Course r = Str (the course) \<and> is_lecture r) (df b);
                df2 = (if truthy day then filter (\<lambda>r. Day r = Str (the day)) df1 else df1)
            in if df2 \<noteq> [] then
                 strip ([128218] @ pystr '' Schedule for '' @ the course @ pystr '':'' @ [10] @
                   concat (map (\<lambda>r. if Time r \<noteq> None \<and> cell_truthy (Day r)
                                     then pystr ''- '' @ str_cell (Day r) @ pystr '' at '' @
                                          format_time (Time r) @ pystr '' in room '' @
                                          str_cell (Room r) @ [10]
                                     else []) df2))
               else pystr ''No schedule found for '' @ the course @ pystr ''.'')
         else pystr ''Which course'' @ [39] @ pystr ''s schedule would you like to know?'')"

text \<open>
  The \<open>exam_info\<close> branch (source lines 258 to 273). \<open>exam_rows\<close> is the DataFrame \<open>df\<close>
  of the branch: the rows of the course whose exam type is Midterm, Final or Makeup,
  narrowed to the requested exam type when there is one. \<open>.str.lower()\<close> gives \<open>NaN\<close>
  on a cell that is not a string, which equals no string.
\<close>

definition exam_rows :: "(ustr \<Rightarrow> ustr) \<Rightarrow> row list \<Rightarrow> ustr \<Rightarrow> ustr option \<Rightarrow> row list" where
  "exam_rows lower rows course exam_type =
     (let df1 = filter (\<lambda>r. Course r = Str course \<and>
                             Exam_Type r \<in> set [Str (pystr ''Midterm''), Str (pystr ''Final''),
                                                 Str (pystr ''Makeup'')]) rows
      in if truthy exam_type
         then filter (\<lambda>r. case Exam_Type r of
                             Str s \<Rightarrow> lower s = lower (the exam_type)
                           | Other shown tv \<Rightarrow> False) df1
         else df1)"

definition exam_info :: "(ustr \<Rightarrow> ustr) \<Rightarrow> bot \<Rightarrow> ctx \<Rightarrow> entities \<Rightarrow> ustr" where
  "exam_info lower b c es =
     (let course = py_or (dict_get es (pystr ''course'')) (last_course c);
          exam_type = dict_get es (pystr ''exam_type'')
      in if truthy course then
           (let df2 = exam_rows lower (df b) (the course) exam_type
            in if df2 \<noteq> [] then
                 strip ([128221] @ pystr '' Exam info for '' @ the course @ pystr '':'' @ [10] @
                   concat (map (\<lambda>r. case Exam_Date r of
                                       Some d \<Rightarrow> pystr ''- '' @ str_cell (Exam_Type r) @ pystr '' on '' @
                                                 format_date d @ pystr '' at '' @
                                                 format_time (Exam_Time r) @ [10]
                                     | None \<Rightarrow> []) df2))
               else pystr ''No exam info found for '' @ the course @ pystr ''.'')
         else pystr ''Which course'' @ [39] @ pystr ''s exam info would you like?'')"

definition teacher_info :: "bot \<Rightarrow> ctx \<Rightarrow> entities \<Rightarrow> error + ustr" where
  "teacher_info b c es =
     (let teacher = py_or (dict_get es (pystr ''teacher'')) (last_teacher c)
      in if truthy teacher then
           (let df1 = filter (\<lambda>r. Teacher r = Str (the teacher) \<and> is_lecture r) (df b)
            in if df1 \<noteq> [] then
                 (case join_cells (pystr '', '') (unique (map Course df1)) of
                    Inl e \<Rightarrow> Inl e
                  | Inr courses \<Rightarrow>
                      Inr ([128104, 8205, 127979] @ pystr '' '' @ the teacher @
                           pystr '' teaches: '' @ courses))
               else Inr (pystr ''No courses found for '' @ the teacher @ pystr ''.''))
         else Inr (pystr ''Which teacher would you like info about?''))"

definition room_info :: "bot \<Rightarrow> ctx \<Rightarrow> entities \<Rightarrow> ustr" where
  "room_info b c es =
     (let course = py_or (dict_get es (pystr ''course'')) (last_course c);
          day = py_or (dict_get es (pystr ''day'')) (last_day c)
      in if truthy course then
           (let df1 = filter (\<lambda>r. Course r = Str (the course) \<and> is_lecture r) (df b);
                df2 = (if truthy day then filter (\<lambda>r. Day r = Str (the day)) df1 else df1)
            in if df2 \<noteq> [] then
                 strip ([127979] @ pystr '' Rooms for '' @ the course @ pystr '':'' @ [10] @
                   concat (map (\<lambda>r. if cell_truthy (Room r) \<and> Time r \<noteq> None
                                     then pystr ''- '' @ str_cell (Day r) @ pystr '' at '' @
                                          format_time (Time r) @ pystr '' in room '' @
                                          str_cell (Room r) @ [10]
                                     else []) df2))
               else pystr ''No room info found for '' @ the course @ pystr ''.'')
         else pystr ''Which course'' @ [39] @ pystr ''s room info would you like?'')"

definition daily_schedule :: "bot \<Rightarrow> ctx \<Rightarrow> entities \<Rightarrow> ustr" where
  "daily_schedule b c es =
     (let day = py_or (dict_get es (pystr ''day'')) (last_day c)
      in if truthy day then
           (let df1 = filter (\<lambda>r. Day r = Str (the day) \<and> is_lecture r) (df b)
            in if df1 \<noteq> [] then
                 strip ([128197] @ pystr '' Schedule for '' @ the day @ pystr '':'' @ [10] @
                   concat (map (\<lambda>r. if Time r \<noteq> None
                                     then pystr ''- '' @ str_cell (Course r) @ pystr '' at '' @
                                          format_time (Time r) @ pystr '' in room '' @
                                          str_cell (Room r) @ pystr '' (Teacher: '' @
                                          str_cell (Teacher r) @ pystr '')'' @ [10]
                                     else []) df1))
               else pystr ''No classes found for '' @ the day @ pystr ''.'')
         else pystr ''Which day'' @ [39] @ pystr ''s schedule would you like?'')"

text \<open>
  The scan of the \<open>schedule_conflict\<close> branch (source lines 311 to 319): for every day
  in order of first appearance, for every time of that day in order of first
  appearance that is not absent, the Lecture rows of that day and time, kept when
  there is more than one row.
\<close>

definition conflicts_of_day :: "row list \<Rightarrow> cell \<Rightarrow> (cell \<times> pytime option \<times> cell list) list" where
  "conflicts_of_day lectures d =
     (let day_df = filter (\<lambda>r. Day r = d) lectures
      in concat (map (\<lambda>t. if t \<noteq> None then
                             (let time_df = filter (\<lambda>r. Time r = t) day_df
                              in if length time_df > 1 then [(d, t, map Course time_df)] else [])
                           else [])
                     (unique (map Time day_df))))"

definition find_conflicts :: "row list \<Rightarrow> (cell \<times> pytime option \<times> cell list) list" where
  "find_conflicts rows =
     (let lectures = filter is_lecture rows
      in concat (map (conflicts_of_day lectures) (unique (map Day lectures))))"

fun conflict_lines :: "(cell \<times> pytime option \<times> cell list) list \<Rightarrow> error + ustr" where
  "conflict_lines [] = Inr []"
| "conflict_lines ((d, t, courses) # rest) =
     (case join_cells (pystr '', '') courses of
        Inl e \<Rightarrow> Inl e
      | Inr joined \<Rightarrow>
          (case conflict_lines rest of
             Inl e \<Rightarrow> Inl e
           | Inr others \<Rightarrow>
               Inr (pystr ''- '' @ str_cell d @ pystr '' at '' @ format_time t @ pystr '': '' @
                    joined @ [10] @ others)))"

definition schedule_conflict :: "bot \<Rightarrow> error + ustr" where
  "schedule_conflict b =
     (let conflicts = find_conflicts (df b)
      in if conflicts \<noteq> [] then
           (case conflict_lines conflicts of
              Inl e \<Rightarrow> Inl e
            | Inr lines \<Rightarrow> Inr (strip ([9888, 65039] @ pystr '' Schedule conflicts:'' @ [10] @ lines)))
         else Inr (pystr ''No schedule conflicts found.''))"

definition teacher_schedule :: "bot \<Rightarrow> ctx \<Rightarrow> entities \<Rightarrow> ustr" where
  "teacher_schedule b c es =
     (let teacher = py_or (dict_get es (pystr ''teacher'')) (last_teacher c)
      in if truthy teacher then
           (let df1 = filter (\<lambda>r. Teacher r = Str (the teacher) \<and> is_lecture r) (df b)
            in if df1 \<noteq> [] then
                 strip ([128104, 8205, 127979] @ pystr '' '' @ the teacher @ [39] @
                        pystr ''s teaching schedule:'' @ [10] @
                   concat (map (\<lambda>r. if Time r \<noteq> None \<and> cell_truthy (Day r)
                                     then pystr ''- '' @ str_cell (Course r) @ pystr '' on '' @
                                          str_cell (Day r) @ pystr '' at '' @
                                          format_time (Time r) @ pystr '' in room '' @
                                          str_cell (Room r) @ [10]
                                     else []) df1))
               else pystr ''No schedule found for '' @ the teacher @ pystr ''.'')
         else pystr ''Which teacher'' @ [39] @ pystr ''s schedule would you like to know about?'')"

definition course_availability :: "bot \<Rightarrow> ctx \<Rightarrow> entities \<Rightarrow> ustr" where
  "course_availability b c es =
     (let course = py_or (dict_get es (pystr ''course'')) (last_course c)
      in if truthy course then
           (if the course \<in> set (map snd (normalized_courses b))
            then [9989] @ pystr '' '' @ the course @ pystr '' is available this semester.''
            else [10060] @ pystr '' '' @ the course @ pystr '' is not available this semester.'')
         else pystr ''Which course are you checking?'')"

definition section_info :: "bot \<Rightarrow> ctx \<Rightarrow> entities \<Rightarrow> ustr" where
  "section_info b c es =
     (let course = py_or (dict_get es (pystr ''course'')) (last_course c)
      in if truthy course then
           (let sections = filter (\<lambda>c'. py_in (the course) c') (map snd (normalized_courses b))
            in if sections \<noteq> []
               then [128218] @ pystr '' Available sections: '' @ join (pystr '', '') sections
               else pystr ''No sections found for '' @ the course @ pystr ''.'')
         else pystr ''Which course'' @ [39] @ pystr ''s sections would you like?'')"

text \<open>
  \<open>generate_response\<close>: the intent is predicted, the turn is recorded, then the branch
  of the intent answers from the updated context. The result is the response (or the
  exception raised) and the context after the call. Code point 39 is the ASCII
  apostrophe, 8217 the typographic one, 10 the newline.
\<close>

definition generate_response ::
  "(ustr \<Rightarrow> ustr) \<Rightarrow> (ustr \<Rightarrow> ustr) \<Rightarrow> nat \<Rightarrow> nat \<Rightarrow> bot \<Rightarrow> ctx \<Rightarrow> ustr \<Rightarrow> entities \<Rightarrow>
     (error + ustr) \<times> ctx" where
  "generate_response lower model r now b c t es =
     (let i = predict_intent lower model t;
          c' = update_context c t i es now
      in (if i = pystr ''greeting'' then
            Inr (random_choice r
                   [pystr ''Merhaba! '' @ [128218] @ pystr '' How can I assist you today?'',
                    pystr ''Hi! Ready to help with your schedule. '' @ [128522]])
          else if i = pystr ''goodbye'' then
            Inr (random_choice r
                   [pystr ''G'' @ [246] @ pystr ''r'' @ [252, 351, 252] @ pystr ''r'' @ [252] @
                      pystr ''z! '' @ [128075],
                    pystr ''Bye! Take care! '' @ [128522]])
          else if i = pystr ''thanks'' then
            Inr (random_choice r
                   [pystr ''Rica ederim! '' @ [128522],
                    pystr ''You'' @ [39] @ pystr ''re welcome!''])
          else if i = pystr ''class_schedule'' then Inr (class_schedule b c' es)
          else if i = pystr ''exam_info'' then Inr (exam_info lower b c' es)
          else if i = pystr ''teacher_info'' then teacher_info b c' es
          else if i = pystr ''room_info'' then Inr (room_info b c' es)
          else if i = pystr ''daily_schedule'' then Inr (daily_schedule b c' es)
          else if i = pystr ''schedule_conflict'' then schedule_conflict b
          else if i = pystr ''teacher_schedule'' then Inr (teacher_schedule b c' es)
          else if i = pystr ''course_availability'' then Inr (course_availability b c' es)
          else if i = pystr ''section_info'' then Inr (section_info b c' es)
          else if i = pystr ''academic_calendar'' then
            Inr ([128197] @
                 pystr '' Academic calendar: Please check the university website for exact dates.'')
          else if i = pystr ''smalltalk_weather'' then
            Inr (random_choice r
                   [pystr ''Hava durumu? '' @ [9728, 65039] @
                      pystr '' Check your window or a weather app!'',
                    pystr ''Weather? I'' @ [8217] @ pystr ''m just predict sunny vibes! '' @
                      [128526]])
          else if i = pystr ''smalltalk_name'' then
            Inr (pystr ''I'' @ [39] @
                 pystr ''m Unibot, your friendly university schedule assistant! '' @ [128522])
          else Inr (pystr ''Sorry, I didn'' @ [8217] @
                    pystr ''t understand. Could you clarify?''),
          c'))"

section \<open>Readings of the specification\<close>

text \<open>
  The specification describes title stripping as removing the first prefix, in
  priority order, that matches at the start of the name. \<open>strip_first_prefix\<close> is that
  reading; \<open>later_prefixes\<close> are the prefixes listed after the one it removed.
\<close>

fun strip_first_prefix :: "ustr list \<Rightarrow> ustr \<Rightarrow> ustr" where
  "strip_first_prefix [] name = name"
| "strip_first_prefix (prefix # ps) name =
     (if startswith name prefix then strip (drop (length prefix) name)
      else strip_first_prefix ps name)"

fun later_prefixes :: "ustr list \<Rightarrow> ustr \<Rightarrow> ustr list" where
  "later_prefixes [] name = []"
| "later_prefixes (prefix # ps) name =
     (if startswith name prefix then ps else later_prefixes ps name)"

text \<open>
  The specification describes follow-up resolution as back-filling each unset field
  on its own from the most recent interaction that has it. \<open>backfill_field\<close> does so
  for one field over a history given newest first, \<open>backfill_independent\<close> for teacher
  and then course.
\<close>

definition backfill_field :: "ustr \<Rightarrow> interaction list \<Rightarrow> entities \<Rightarrow> entities" where
  "backfill_field field newest_first es =
     (if truthy (dict_get es field) then es
      else case find (\<lambda>i. truthy (dict_get (entities i) field)) newest_first of
             None \<Rightarrow> es
           | Some i \<Rightarrow> dict_set field (dict_get (entities i) field) es)"

definition backfill_independent :: "interaction list \<Rightarrow> entities \<Rightarrow> entities" where
  "backfill_independent newest_first es =
     backfill_field (pystr ''course'') newest_first
       (backfill_field (pystr ''teacher'') newest_first es)"

text \<open>An interaction can back-fill a field that the entities still lack.\<close>

definition can_fill :: "entities \<Rightarrow> interaction \<Rightarrow> bool" where
  "can_fill es i \<longleftrightarrow>
     (\<not> truthy (dict_get es (pystr ''teacher'')) \<and>
        truthy (dict_get (entities i) (pystr ''teacher''))) \<or>
     (\<not> truthy (dict_get es (pystr ''course'')) \<and>
        truthy (dict_get (entities i) (pystr ''course'')))"




section \<open>Example data\<close>

definition turn :: "entities \<Rightarrow> nat \<Rightarrow> interaction" where
  "turn es n =
     \<lparr>query = pystr ''q'', intent = pystr ''class_schedule'', entities = es, timestamp = n\<rparr>"

definition five_turns :: ctx where
  "five_turns =
     \<lparr>history = [turn [] 1, turn [] 2, turn [] 3, turn [] 4, turn [] 5],
      last_course = None, last_teacher = None, last_day = None\<rparr>"

text \<open>A scorer that gives 100 to an identical string and 0 to any other.\<close>

definition example_scorer :: "ustr \<Rightarrow> ustr \<Rightarrow> nat" where
  "example_scorer q k = (if q = k then 100 else 0)"

text \<open>A pipeline that recognizes nothing.\<close>

definition no_doc :: "lang \<Rightarrow> ustr \<Rightarrow> doc" where
  "no_doc l t = \<lparr>ents = [], tokens = [], matches = []\<rparr>"

definition lecture :: "ustr \<Rightarrow> ustr \<Rightarrow> ustr \<Rightarrow> nat \<Rightarrow> nat \<Rightarrow> ustr \<Rightarrow> row" where
  "lecture course teacher d h m room =
     \<lparr>Course = Str course, Teacher = Str teacher, Day = Str d,
      Time = Some \<lparr>hour = h, minute = m, second = 0\<rparr>, Room = Str room,
      Exam_Type = Str (pystr ''Lecture''), Exam_Date = None, Exam_Time = None\<rparr>"

definition undated_exam :: "ustr \<Rightarrow> ustr \<Rightarrow> row" where
  "undated_exam course kind =
     \<lparr>Course = Str course, Teacher = Str (pystr ''-''), Day = Str [], Time = None, Room = Str [],
      Exam_Type = Str kind, Exam_Date = None, Exam_Time = None\<rparr>"


definition two_course_rows :: "row list" where
  "two_course_rows =
     [lecture (pystr ''CS101'') (pystr ''Dr. Ali'') (pystr ''Tuesday'') 10 0 (pystr ''201''),
      lecture (pystr ''MATH201'') (pystr ''Dr. Veli'') (pystr ''Tuesday'') 10 0 (pystr ''202'')]"

definition same_name_rows :: "row list" where
  "same_name_rows =
     [lecture (pystr ''CS101'') (pystr ''Dr. Ali'') (pystr ''Tuesday'') 10 0 (pystr ''201''),
      lecture (pystr ''MATH201'') (pystr ''Prof. Dr. Ali'') (pystr ''Friday'') 9 0 (pystr ''202'')]"

definition friday_turn :: ctx where
  "friday_turn =
     update_context init_context (pystr ''CS101 Cuma?'') (pystr ''class_schedule'')
       (dict_set (pystr ''day'') (Some (pystr ''Cuma''))
          (dict_set (pystr ''course'') (Some (pystr ''CS101'')) empty_entities)) 1"

text \<open>A sheet of two rows as \<open>read_excel\<close> returns it.\<close>

definition example_sheet :: "raw_row list" where
  "example_sheet =
     [\<lparr>raw_Course = Some (Str (pystr ''CS101'')), raw_Teacher = Some (Str (pystr ''Dr. Ali'')),
       raw_Day = Some (Str (pystr ''Tuesday'')), raw_Time = Some (Str (pystr ''08:00-10:00'')),
       raw_Room = Some (Other (pystr ''201.0'') True), raw_Exam_Type = Some (Str (pystr ''Lecture'')),
       raw_Exam_Date = None, raw_Exam_Time = None\<rparr>,
      \<lparr>raw_Course = Some (Str (pystr ''CS101'')), raw_Teacher = Some (Str (pystr ''-'')),
       raw_Day = None, raw_Time = Some (Str (pystr ''soon'')),
       raw_Room = None, raw_Exam_Type = Some (Str (pystr ''Midterm'')),
       raw_Exam_Date = Some (Str (pystr ''15.01.2025'')),
       raw_Exam_Time = Some (Str (pystr ''09:30:00''))\<rparr>]"

text \<open>
  What \<open>pd.to_datetime\<close> returns on three strings, and \<open>NaT\<close> on every other value.
\<close>

definition example_to_datetime :: "cell \<Rightarrow> ustr \<Rightarrow> parsed" where
  "example_to_datetime x fmt =
     (case map_of
        [((Str (pystr ''08:00''), pystr ''%H:%M''),
          Timestamp \<lparr>year = 1900, month = 1, dayofmonth = 1\<rparr>
            \<lparr>hour = 8, minute = 0, second = 0\<rparr>),
         ((Str (pystr ''09:30:00''), pystr ''%H:%M:%S''),
          Timestamp \<lparr>year = 1900, month = 1, dayofmonth = 1\<rparr>
            \<lparr>hour = 9, minute = 30, second = 0\<rparr>),
         ((Str (pystr ''15.01.2025''), pystr ''%d.%m.%Y''),
          Timestamp \<lparr>year = 2025, month = 1, dayofmonth = 15\<rparr>
            \<lparr>hour = 0, minute = 0, second = 0\<rparr>)]
        (x, fmt) of
        None \<Rightarrow> NaT
      | Some p \<Rightarrow> p)"

section \<open>Properties\<close>

subsection \<open>Auxiliary facts\<close>

lemmas string_eval = pystr_def strip_def lstrip_def rstrip_def isspace_def startswith_def

lemmas dict_eval = dict_get_def dict_get_default_def dict_set_def truthy_def py_or_def
  empty_entities_def

lemma history_update_context:
  "history (update_context c q i es now) =
     (if length (history c) \<ge> 5
      then drop (length (history c) - 4) (history c) @
             [\<lparr>query = q, intent = i, entities = es, timestamp = now\<rparr>]
      else history c @ [\<lparr>query = q, intent = i, entities = es, timestamp = now\<rparr>])"
  by (simp add: update_context_def last5_def Let_def)

lemma last_course_update:
  "last_course (update_context c q i es now) =
     dict_get_default es (pystr ''course'') (last_course c)"
  by (simp add: update_context_def Let_def)

lemma set_unique: "set (unique xs) = set xs"
proof (induction xs rule: unique.induct)
  case 1
  show ?case by simp
next
  case (2 x xs)
  then show ?case by auto
qed

lemma dict_get_set_other: "k \<noteq> k' \<Longrightarrow> dict_get (dict_set k v d) k' = dict_get d k'"
  by (simp add: dict_get_def dict_get_default_def dict_set_def update_conv')

lemma key_neq: "pystr ''teacher'' \<noteq> pystr ''course''" "pystr ''course'' \<noteq> pystr ''teacher''"
  by (simp_all add: pystr_def)



lemma strip_header:
  assumes "\<not> isspace a" and "\<not> isspace z"
  shows "strip (a # xs @ [z, 10]) = a # xs @ [z]"
proof -
  have nl: "isspace 10" by (simp add: isspace_def)
  show ?thesis using assms nl by (simp add: strip_def lstrip_def rstrip_def)
qed


subsection \<open>History bound\<close>

text \<open>
  Claim C6. After every call to \<open>_update_context\<close> the history holds at most five
  interactions, whatever it held before. When it held exactly five, the new history
  is the old one without its oldest entry, followed by the new interaction; when it
  held fewer, the new interaction is appended and nothing is evicted.
\<close>

theorem history_bounded:
  "length (history (update_context c q i es now)) \<le> 5 \<and>
   (length (history c) = 5 \<longrightarrow>
      history (update_context c q i es now) =
        tl (history c) @ [\<lparr>query = q, intent = i, entities = es, timestamp = now\<rparr>]) \<and>
   (length (history c) < 5 \<longrightarrow>
      history (update_context c q i es now) =
        history c @ [\<lparr>query = q, intent = i, entities = es, timestamp = now\<rparr>])"
  by (auto simp: history_update_context drop_Suc)

theorem history_bounded_witness:
  "length (history five_turns) = 5 \<and>
   history (update_context five_turns (pystr ''q'') (pystr ''thanks'') [] 6) =
     [turn [] 2, turn [] 3, turn [] 4, turn [] 5,
      \<lparr>query = pystr ''q'', intent = pystr ''thanks'', entities = [], timestamp = 6\<rparr>] \<and>
   length (history init_context) < 5 \<and>
   history (update_context init_context (pystr ''q'') (pystr ''thanks'') [] 6) =
     [\<lparr>query = pystr ''q'', intent = pystr ''thanks'', entities = [], timestamp = 6\<rparr>]"
proof -
  have a: "length (history five_turns) = 5" by (simp add: five_turns_def)
  have b: "length (history init_context) < 5" by (simp add: init_context_def)
  show ?thesis
    using a b history_bounded[of five_turns "pystr ''q''" "pystr ''thanks''" "[]" 6]
      history_bounded[of init_context "pystr ''q''" "pystr ''thanks''" "[]" 6]
    by (simp add: five_turns_def init_context_def)
qed

subsection \<open>Fuzzy matching threshold\<close>

lemma first_max_mem: "first_max best xs \<in> set (best # xs)"
  by (induction xs arbitrary: best) auto

lemma first_max_ge: "y \<in> set (best # xs) \<Longrightarrow> snd y \<le> snd (first_max best xs)"
proof (induction xs arbitrary: best y)
  case Nil
  then show ?case by simp
next
  case (Cons x xs)
  have mono: "snd b \<le> snd (first_max b xs)" for b
    using Cons.IH[of b b] by simp
  show ?case
  proof (cases "y \<in> set xs")
    case True
    then show ?thesis using Cons.IH[of y] by simp
  next
    case False
    with Cons.prems have "y = best \<or> y = x" by auto
    then show ?thesis
      using mono[of "if snd best < snd x then x else best"]
      by (auto split: if_splits)
  qed
qed

lemma extractOne_Some:
  assumes "choices \<noteq> []"
  shows "\<exists>k. extractOne scorer q choices = Some (k, scorer q k) \<and> k \<in> set choices \<and>
             scorer q k = Max (scorer q ` set choices)"
proof -
  obtain c cs where ch: "choices = c # cs" using assms by (cases choices) auto
  let ?ps = "map (\<lambda>c. (c, scorer q c)) cs"
  let ?b = "first_max (c, scorer q c) ?ps"
  have mem: "?b \<in> set ((c, scorer q c) # ?ps)" by (rule first_max_mem)
  then obtain k where k: "?b = (k, scorer q k)" "k \<in> set choices"
    unfolding ch by auto
  have ge: "scorer q k' \<le> scorer q k" if "k' \<in> set choices" for k'
  proof -
    from that have "(k', scorer q k') \<in> set ((c, scorer q c) # ?ps)" unfolding ch by auto
    from first_max_ge[OF this] show ?thesis using k(1) by simp
  qed
  have "Max (scorer q ` set choices) = scorer q k"
    by (rule Max_eqI) (use k(2) ge in auto)
  moreover have "extractOne scorer q choices = Some ?b"
    by (simp add: extractOne_def ch)
  ultimately show ?thesis using k by auto
qed

text \<open>
  Claim C5. For a non-empty text and a non-empty vocabulary, with any scorer,
  \<open>fuzzy_match_entity\<close> at its default threshold 70 returns \<open>None\<close> when the best score
  over the vocabulary keys is below 70, and when the best score is at least 70 it
  returns the value the vocabulary maps a best-scoring key to.
\<close>

theorem fuzzy_match_threshold:
  assumes "t \<noteq> []" and "candidates \<noteq> []"
  shows "(Max (scorer (normalize_text lower t) ` fst ` set candidates) < 70 \<longrightarrow>
            fuzzy_match_entity lower scorer t candidates 70 = Inr None) \<and>
         (Max (scorer (normalize_text lower t) ` fst ` set candidates) \<ge> 70 \<longrightarrow>
            (\<exists>k v. map_of candidates k = Some v \<and>
                   scorer (normalize_text lower t) k =
                     Max (scorer (normalize_text lower t) ` fst ` set candidates) \<and>
                   fuzzy_match_entity lower scorer t candidates 70 = Inr (Some v)))"
proof -
  let ?q = "normalize_text lower t"
  have ne: "map fst candidates \<noteq> []" using assms(2) by simp
  from extractOne_Some[OF ne, of scorer ?q]
  obtain k where k: "extractOne scorer ?q (map fst candidates) = Some (k, scorer ?q k)"
    "k \<in> fst ` set candidates" "scorer ?q k = Max (scorer ?q ` fst ` set candidates)"
    unfolding set_map by blast
  from k(2) obtain v where v: "map_of candidates k = Some v"
    by (metis domD dom_map_of_conv_image_fst)
  show ?thesis
    using assms(1) k(1) k(3) v by (auto simp: fuzzy_match_entity_def Let_def)
qed

theorem fuzzy_match_threshold_witness:
  "pystr ''CS101'' \<noteq> [] \<and>
   [(pystr ''cs101'', pystr ''CS101''), (pystr ''math201'', pystr ''MATH201'')] \<noteq> [] \<and>
   fuzzy_match_entity ascii_lower example_scorer (pystr ''CS101'')
     [(pystr ''cs101'', pystr ''CS101''), (pystr ''math201'', pystr ''MATH201'')] 70 =
     Inr (Some (pystr ''CS101'')) \<and>
   fuzzy_match_entity ascii_lower example_scorer (pystr ''PHYS'')
     [(pystr ''cs101'', pystr ''CS101''), (pystr ''math201'', pystr ''MATH201'')] 70 = Inr None"
proof -
  let ?cands = "[(pystr ''cs101'', pystr ''CS101''), (pystr ''math201'', pystr ''MATH201'')]"
  have a: "pystr ''CS101'' \<noteq> []" and a': "pystr ''PHYS'' \<noteq> []" by (simp_all add: pystr_def)
  have b: "?cands \<noteq> []" by simp
  have hi: "Max (example_scorer (normalize_text ascii_lower (pystr ''CS101'')) ` fst ` set ?cands) = 100"
    by (simp add: example_scorer_def normalize_text_def ascii_lower_def string_eval)
  have lo: "Max (example_scorer (normalize_text ascii_lower (pystr ''PHYS'')) ` fst ` set ?cands) = 0"
    by (simp add: example_scorer_def normalize_text_def ascii_lower_def string_eval)
  from fuzzy_match_threshold[OF a b, of example_scorer ascii_lower] hi
  obtain k v where kv: "map_of ?cands k = Some v"
    "example_scorer (normalize_text ascii_lower (pystr ''CS101'')) k = 100"
    "fuzzy_match_entity ascii_lower example_scorer (pystr ''CS101'') ?cands 70 = Inr (Some v)"
    by auto
  from kv(2) have "k = normalize_text ascii_lower (pystr ''CS101'')"
    by (simp add: example_scorer_def split: if_splits)
  then have "k = pystr ''cs101''"
    by (simp add: normalize_text_def ascii_lower_def string_eval)
  with kv(1) have "v = pystr ''CS101''" by simp
  moreover from fuzzy_match_threshold[OF a' b, of example_scorer ascii_lower] lo
  have "fuzzy_match_entity ascii_lower example_scorer (pystr ''PHYS'') ?cands 70 = Inr None"
    by simp
  ultimately show ?thesis using a b kv(3) by simp
qed

subsection \<open>Title stripping\<close>

lemma strip_prefixes_no_match:
  "\<forall>p \<in> set ps. \<not> startswith t p \<Longrightarrow> strip_prefixes ps t = t"
  by (induction ps) auto

lemma strip_prefixes_split:
  "strip_prefixes ps t = strip_prefixes (later_prefixes ps t) (strip_first_prefix ps t)"
  by (induction ps) auto

lemma rstrip_decomp: "\<exists>ws. s = rstrip s @ ws \<and> (\<forall>c \<in> set ws. isspace c)"
proof -
  have "rev s = takeWhile isspace (rev s) @ dropWhile isspace (rev s)" by simp
  then have "s = rev (dropWhile isspace (rev s)) @ rev (takeWhile isspace (rev s))"
    by (metis rev_append rev_rev_ident)
  moreover have "\<forall>c \<in> set (rev (takeWhile isspace (rev s))). isspace c"
    by (auto dest: set_takeWhileD)
  ultimately show ?thesis unfolding rstrip_def by blast
qed

lemma strip_decomp: "\<exists>pre ws. s = pre @ strip s @ ws \<and> (\<forall>c \<in> set ws. isspace c)"
proof -
  obtain ws where ws: "lstrip s = rstrip (lstrip s) @ ws" "\<forall>c \<in> set ws. isspace c"
    using rstrip_decomp[of "lstrip s"] by blast
  have "s = takeWhile isspace s @ lstrip s" by (simp add: lstrip_def)
  then have "s = takeWhile isspace s @ strip s @ ws"
    using ws(1) by (simp add: strip_def)
  then show ?thesis using ws(2) by blast
qed

lemma strip_prefixes_decomp:
  "\<exists>pre ws. t = pre @ strip_prefixes ps t @ ws \<and> (\<forall>c \<in> set ws. isspace c)"
proof (induction ps arbitrary: t)
  case Nil
  have "t = [] @ strip_prefixes [] t @ []" by simp
  then show ?case by (metis empty_iff empty_set)
next
  case (Cons p ps)
  show ?case
  proof (cases "startswith t p")
    case False
    then show ?thesis using Cons.IH[of t] by simp
  next
    case True
    let ?r = "strip (drop (length p) t)"
    obtain pre ws where r: "?r = pre @ strip_prefixes ps ?r @ ws" "\<forall>c \<in> set ws. isspace c"
      using Cons.IH[of ?r] by blast
    obtain pre' ws' where d: "drop (length p) t = pre' @ ?r @ ws'" "\<forall>c \<in> set ws'. isspace c"
      using strip_decomp[of "drop (length p) t"] by blast
    have "t = take (length p) t @ drop (length p) t" by simp
    then have "t = take (length p) t @ pre' @ (pre @ strip_prefixes ps ?r @ ws) @ ws'"
      using d(1) r(1) by simp
    then have "t = (take (length p) t @ pre' @ pre) @ strip_prefixes (p # ps) t @ (ws @ ws')"
      using True by simp
    moreover have "\<forall>c \<in> set (ws @ ws'). isspace c" using r(2) d(2) by auto
    ultimately show ?thesis by blast
  qed
qed

lemmas title_eval = title_prefixes_def string_eval

text \<open>
  Claim C4, as stated, fails: on \<open>Prof. Dr. Dr. Ali\<close> the loop of
  \<open>_preprocess_teachers_no_titles\<close> removes \<open>Prof. Dr.\<close> and then \<open>Dr.\<close>, two prefixes,
  where removing only the first matching prefix would leave \<open>Dr. Ali\<close>.
\<close>

theorem title_stripping_counterexample:
  "strip_prefixes title_prefixes (pystr ''Prof. Dr. Dr. Ali'') = pystr ''Ali'' \<and>
   strip_first_prefix title_prefixes (pystr ''Prof. Dr. Dr. Ali'') = pystr ''Dr. Ali''"
  by (simp add: title_eval)

text \<open>
  Claim C4, amended. The loop removes the first prefix in priority order that matches
  at the start of the name, trims the remainder, and goes on testing the prefixes
  listed after it against the start of that remainder, removing each one that
  matches there. So it removes exactly the first matching prefix when none of the
  later prefixes begins the remainder, and nothing when no prefix begins the name.
  Whatever it removes comes off the front of the name (and whitespace off the end):
  a title occurring elsewhere in the name stays.
\<close>

theorem title_stripping:
  "strip_prefixes title_prefixes t =
     strip_prefixes (later_prefixes title_prefixes t) (strip_first_prefix title_prefixes t) \<and>
   ((\<forall>p \<in> set (later_prefixes title_prefixes t).
        \<not> startswith (strip_first_prefix title_prefixes t) p) \<longrightarrow>
      strip_prefixes title_prefixes t = strip_first_prefix title_prefixes t) \<and>
   ((\<forall>p \<in> set title_prefixes. \<not> startswith t p) \<longrightarrow> strip_prefixes title_prefixes t = t) \<and>
   (\<exists>pre ws. t = pre @ strip_prefixes title_prefixes t @ ws \<and> (\<forall>c \<in> set ws. isspace c))"
  using strip_prefixes_split[of title_prefixes t] strip_prefixes_no_match
    strip_prefixes_decomp[of t title_prefixes]
  by metis

theorem title_stripping_witness:
  "strip_prefixes title_prefixes (pystr ''Prof. Dr. Ali'') = pystr ''Ali'' \<and>
   strip_prefixes title_prefixes (pystr ''Ali Dr. Veli'') = pystr ''Ali Dr. Veli''"
proof -
  have a: "\<forall>p \<in> set (later_prefixes title_prefixes (pystr ''Prof. Dr. Ali'')).
       \<not> startswith (strip_first_prefix title_prefixes (pystr ''Prof. Dr. Ali'')) p"
    by (simp add: title_eval)
  have b: "\<forall>p \<in> set title_prefixes. \<not> startswith (pystr ''Ali Dr. Veli'') p"
    by (simp add: title_eval)
  have c: "strip_first_prefix title_prefixes (pystr ''Prof. Dr. Ali'') = pystr ''Ali''"
    by (simp add: title_eval)
  from a title_stripping[of "pystr ''Prof. Dr. Ali''"]
  have d: "strip_prefixes title_prefixes (pystr ''Prof. Dr. Ali'') =
             strip_first_prefix title_prefixes (pystr ''Prof. Dr. Ali'')"
    by blast
  from b title_stripping[of "pystr ''Ali Dr. Veli''"]
  have e: "strip_prefixes title_prefixes (pystr ''Ali Dr. Veli'') = pystr ''Ali Dr. Veli''"
    by blast
  show ?thesis using c d e by (simp only: simp_thms)
qed

subsection \<open>No-title vocabulary\<close>

lemma no_titles_loop_origin:
  "map_of (no_titles_loop lower ts m) k = Some v \<Longrightarrow>
     map_of m k = Some v \<or>
     (Str v \<in> set ts \<and> v \<noteq> pystr ''-'' \<and>
      normalize_text lower (strip_prefixes title_prefixes v) = k)"
proof (induction lower ts m rule: no_titles_loop.induct)
  case (1 lower m)
  then show ?case by simp
next
  case (2 lower teacher ts m)
  then show ?case
    by (auto simp: dict_set_def update_conv' split: if_splits)
next
  case (3 lower shown tv ts m)
  then show ?case by auto
qed

lemma fst_dict_set: "fst ` set (dict_set k v d) = insert k (fst ` set d)"
  using dom_update[of k v d] by (simp add: dict_set_def dom_map_of_conv_image_fst)

lemma no_titles_loop_keeps:
  "k \<in> fst ` set m \<Longrightarrow> k \<in> fst ` set (no_titles_loop lower ts m)"
proof (induction lower ts m rule: no_titles_loop.induct)
  case (2 lower teacher ts m)
  then show ?case by (simp add: fst_dict_set del: image_set)
qed auto

lemma no_titles_loop_key:
  "Str t \<in> set ts \<Longrightarrow> t \<noteq> pystr ''-'' \<Longrightarrow>
     normalize_text lower (strip_prefixes title_prefixes t)
       \<in> fst ` set (no_titles_loop lower ts m)"
proof (induction lower ts m rule: no_titles_loop.induct)
  case (1 lower m)
  then show ?case by simp
next
  case (2 lower teacher ts m)
  show ?case
  proof (cases "teacher = t")
    case True
    have "normalize_text lower (strip_prefixes title_prefixes t)
            \<in> fst ` set (dict_set (normalize_text lower (strip_prefixes title_prefixes t)) t m)"
      by (simp add: fst_dict_set del: image_set)
    then show ?thesis using True 2(3) no_titles_loop_keeps by simp
  next
    case False
    then show ?thesis using 2 by auto
  qed
next
  case (3 lower shown tv ts m)
  then show ?case by auto
qed

lemmas vocab_eval = preprocess_teachers_no_titles_def normalize_text_def ascii_lower_def
  lecture_def dict_set_def title_eval

text \<open>
  Claim C8, as stated, fails: when \<open>Dr. Ali\<close> and \<open>Prof. Dr. Ali\<close> both teach, both
  strip to the key \<open>ali\<close>, and the vocabulary maps that key to the name met last,
  \<open>Prof. Dr. Ali\<close>, not back to \<open>Dr. Ali\<close>.
\<close>

theorem no_title_round_trip_counterexample:
  "Teacher (same_name_rows ! 0) = Str (pystr ''Dr. Ali'') \<and>
   startswith (pystr ''Dr. Ali'') (pystr ''Dr.'') \<and>
   normalize_text ascii_lower (strip_prefixes title_prefixes (pystr ''Dr. Ali'')) = pystr ''ali'' \<and>
   map_of (preprocess_teachers_no_titles ascii_lower same_name_rows) (pystr ''ali'') =
     Some (pystr ''Prof. Dr. Ali'')"
  by (simp add: same_name_rows_def vocab_eval)

text \<open>
  Claim C8, amended. For every teacher name of the dataset that is a string other
  than \<open>-\<close> (so for every one that begins with a known title prefix), stripping the
  titles as the vocabulary build does and normalizing the remainder yields a key of
  the no-title vocabulary. That key maps to a teacher name of the dataset with the
  same stripped and normalized form; it maps back to the original name when no
  other teacher name of the dataset has that form.
\<close>

theorem no_title_round_trip:
  assumes "Str t \<in> Teacher ` set rows" and "t \<noteq> pystr ''-''"
  shows "\<exists>t'. map_of (preprocess_teachers_no_titles lower rows)
                 (normalize_text lower (strip_prefixes title_prefixes t)) = Some t' \<and>
              Str t' \<in> Teacher ` set rows \<and> t' \<noteq> pystr ''-'' \<and>
              normalize_text lower (strip_prefixes title_prefixes t') =
                normalize_text lower (strip_prefixes title_prefixes t) \<and>
              ((\<forall>t''. Str t'' \<in> Teacher ` set rows \<and> t'' \<noteq> pystr ''-'' \<and>
                      normalize_text lower (strip_prefixes title_prefixes t'') =
                        normalize_text lower (strip_prefixes title_prefixes t) \<longrightarrow> t'' = t)
               \<longrightarrow> t' = t)"
proof -
  let ?k = "normalize_text lower (strip_prefixes title_prefixes t)"
  let ?ts = "unique (map Teacher rows)"
  have mem: "Str t \<in> set ?ts" using assms(1) by (simp add: set_unique)
  have "?k \<in> fst ` set (no_titles_loop lower ?ts [])"
    by (rule no_titles_loop_key[OF mem assms(2)])
  then obtain t' where t': "map_of (no_titles_loop lower ?ts []) ?k = Some t'"
    by (metis domD dom_map_of_conv_image_fst)
  from no_titles_loop_origin[OF t']
  have o: "Str t' \<in> Teacher ` set rows" "t' \<noteq> pystr ''-''"
    "normalize_text lower (strip_prefixes title_prefixes t') = ?k"
    by (auto simp: set_unique)
  show ?thesis
    using t' o unfolding preprocess_teachers_no_titles_def by blast
qed

theorem no_title_round_trip_witness:
  "Str (pystr ''Dr. Veli'') \<in> Teacher ` set two_course_rows \<and>
   pystr ''Dr. Veli'' \<noteq> pystr ''-'' \<and>
   map_of (preprocess_teachers_no_titles ascii_lower two_course_rows) (pystr ''veli'') =
     Some (pystr ''Dr. Veli'')"
proof -
  have a: "Str (pystr ''Dr. Veli'') \<in> Teacher ` set two_course_rows"
    by (simp add: two_course_rows_def lecture_def)
  have b: "pystr ''Dr. Veli'' \<noteq> pystr ''-''" by (simp add: pystr_def)
  have k: "normalize_text ascii_lower (strip_prefixes title_prefixes (pystr ''Dr. Veli'')) =
             pystr ''veli''"
    by (simp add: vocab_eval)
  have k': "normalize_text ascii_lower (strip_prefixes title_prefixes (pystr ''Dr. Ali'')) =
             pystr ''ali''"
    by (simp add: vocab_eval)
  have names: "Str t'' \<in> Teacher ` set two_course_rows \<Longrightarrow>
                 t'' = pystr ''Dr. Ali'' \<or> t'' = pystr ''Dr. Veli''" for t''
    by (auto simp: two_course_rows_def lecture_def)
  have ne: "pystr ''ali'' \<noteq> pystr ''veli''" by (simp add: pystr_def)
  have uniq: "\<forall>t''. Str t'' \<in> Teacher ` set two_course_rows \<and> t'' \<noteq> pystr ''-'' \<and>
                normalize_text ascii_lower (strip_prefixes title_prefixes t'') =
                  normalize_text ascii_lower (strip_prefixes title_prefixes (pystr ''Dr. Veli''))
                \<longrightarrow> t'' = pystr ''Dr. Veli''"
    using names k k' ne by metis
  from no_title_round_trip[OF a b, of ascii_lower] uniq
  have "map_of (preprocess_teachers_no_titles ascii_lower two_course_rows)
          (normalize_text ascii_lower (strip_prefixes title_prefixes (pystr ''Dr. Veli''))) =
        Some (pystr ''Dr. Veli'')"
    by blast
  then show ?thesis using a b k by (simp only: simp_thms)
qed

subsection \<open>Follow-up resolution\<close>

lemma followup_loop_find:
  "followup_loop xs es =
     (case find (can_fill es) xs of
        None \<Rightarrow> es
      | Some i \<Rightarrow>
          if \<not> truthy (dict_get es (pystr ''teacher'')) \<and>
             truthy (dict_get (entities i) (pystr ''teacher''))
          then dict_set (pystr ''teacher'') (dict_get (entities i) (pystr ''teacher'')) es
          else dict_set (pystr ''course'') (dict_get (entities i) (pystr ''course'')) es)"
  by (induction xs) (auto simp: can_fill_def)

lemma followup_loop_teacher_set:
  assumes "truthy (dict_get es (pystr ''teacher''))"
  shows "followup_loop xs es = backfill_field (pystr ''course'') xs es"
  using assms by (induction xs) (auto simp: backfill_field_def)

lemma followup_loop_course_set:
  assumes "truthy (dict_get es (pystr ''course''))"
  shows "followup_loop xs es = backfill_field (pystr ''teacher'') xs es"
  using assms by (induction xs) (auto simp: backfill_field_def)

lemma followup_loop_one_field:
  "dict_get (followup_loop xs es) (pystr ''course'') = dict_get es (pystr ''course'') \<or>
   dict_get (followup_loop xs es) (pystr ''teacher'') = dict_get es (pystr ''teacher'')"
  by (induction xs) (auto simp: dict_get_set_other key_neq)

lemmas followup_eval = followup_stage_def backfill_independent_def backfill_field_def turn_def
  can_fill_def dict_eval pystr_def

text \<open>
  Claim C3, as stated, fails: with a history whose older turn has the course
  \<open>CS101\<close> and whose newer turn has the teacher \<open>Dr. Ali\<close>, a follow-up with neither
  field set gets the teacher back-filled and the loop stops there; the course stays
  unset, where independent back-filling would set it to \<open>CS101\<close>.
\<close>

theorem followup_independent_counterexample:
  "dict_get (followup_stage True
      [turn (dict_set (pystr ''course'') (Some (pystr ''CS101'')) empty_entities) 1,
       turn (dict_set (pystr ''teacher'') (Some (pystr ''Dr. Ali'')) empty_entities) 2]
      empty_entities) (pystr ''teacher'') = Some (pystr ''Dr. Ali'') \<and>
   dict_get (followup_stage True
      [turn (dict_set (pystr ''course'') (Some (pystr ''CS101'')) empty_entities) 1,
       turn (dict_set (pystr ''teacher'') (Some (pystr ''Dr. Ali'')) empty_entities) 2]
      empty_entities) (pystr ''course'') = None \<and>
   dict_get (backfill_independent (rev
      [turn (dict_set (pystr ''course'') (Some (pystr ''CS101'')) empty_entities) 1,
       turn (dict_set (pystr ''teacher'') (Some (pystr ''Dr. Ali'')) empty_entities) 2])
      empty_entities) (pystr ''course'') = Some (pystr ''CS101'')"
  by (simp add: followup_eval)

text \<open>
  Claim C3, amended. Whenever the utterance contains a follow-up marker or neither a
  course nor a teacher was resolved, the history is scanned newest first and the scan
  stops at the first interaction that can back-fill a field still unset: the teacher
  when the teacher is unset and the interaction has one, otherwise the course when
  the course is unset and the interaction has one. Only that one field is
  back-filled. Hence a single unset field (the other being set by the utterance) is
  back-filled from the most recent interaction that has it, and when both are unset
  at most one of them changes.
\<close>

theorem followup_backfills_one_field:
  assumes "followup \<or>
           \<not> (truthy (dict_get es (pystr ''course'')) \<or> truthy (dict_get es (pystr ''teacher'')))"
  shows "followup_stage followup hist es =
           (case find (can_fill es) (rev hist) of
              None \<Rightarrow> es
            | Some i \<Rightarrow>
                if \<not> truthy (dict_get es (pystr ''teacher'')) \<and>
                   truthy (dict_get (entities i) (pystr ''teacher''))
                then dict_set (pystr ''teacher'') (dict_get (entities i) (pystr ''teacher'')) es
                else dict_set (pystr ''course'') (dict_get (entities i) (pystr ''course'')) es) \<and>
         (truthy (dict_get es (pystr ''teacher'')) \<longrightarrow>
            followup_stage followup hist es = backfill_field (pystr ''course'') (rev hist) es) \<and>
         (truthy (dict_get es (pystr ''course'')) \<longrightarrow>
            followup_stage followup hist es = backfill_field (pystr ''teacher'') (rev hist) es) \<and>
         (dict_get (followup_stage followup hist es) (pystr ''course'') =
            dict_get es (pystr ''course'') \<or>
          dict_get (followup_stage followup hist es) (pystr ''teacher'') =
            dict_get es (pystr ''teacher''))"
proof -
  have st: "followup_stage followup hist es = followup_loop (rev hist) es"
    using assms by (auto simp: followup_stage_def)
  show ?thesis
    unfolding st
    using followup_loop_find[of "rev hist" es] followup_loop_teacher_set[of es "rev hist"]
      followup_loop_course_set[of es "rev hist"] followup_loop_one_field[of "rev hist" es]
    by blast
qed

theorem followup_backfills_one_field_witness:
  "truthy (dict_get (dict_set (pystr ''teacher'') (Some (pystr ''Dr. Veli'')) empty_entities)
     (pystr ''teacher'')) \<and>
   dict_get (followup_stage True
      [turn (dict_set (pystr ''course'') (Some (pystr ''CS101'')) empty_entities) 1,
       turn (dict_set (pystr ''teacher'') (Some (pystr ''Dr. Ali'')) empty_entities) 2]
      (dict_set (pystr ''teacher'') (Some (pystr ''Dr. Veli'')) empty_entities))
     (pystr ''course'') = Some (pystr ''CS101'')"
proof -
  let ?es = "dict_set (pystr ''teacher'') (Some (pystr ''Dr. Veli'')) empty_entities"
  let ?hist = "[turn (dict_set (pystr ''course'') (Some (pystr ''CS101'')) empty_entities) 1,
       turn (dict_set (pystr ''teacher'') (Some (pystr ''Dr. Ali'')) empty_entities) 2]"
  have a: "True \<or> \<not> (truthy (dict_get ?es (pystr ''course'')) \<or>
                       truthy (dict_get ?es (pystr ''teacher'')))"
    by simp
  have b: "truthy (dict_get ?es (pystr ''teacher''))"
    by (simp add: dict_eval pystr_def)
  from followup_backfills_one_field[OF a, of ?hist] b
  have "followup_stage True ?hist ?es = backfill_field (pystr ''course'') (rev ?hist) ?es"
    by blast
  moreover have "dict_get (backfill_field (pystr ''course'') (rev ?hist) ?es) (pystr ''course'') =
                 Some (pystr ''CS101'')"
    by (simp add: followup_eval)
  ultimately show ?thesis using b by simp
qed

subsection \<open>Sticky context fields\<close>

lemmas extract_eval = extract_entities_def normalize_text_def ascii_lower_def detect_language_def
  is_followup_def pronouns_def no_doc_def exact_stage_def fuzzy_stage_def init_bot_def
  preprocess_courses_def preprocess_teachers_def preprocess_teachers_no_titles_def lecture_def
  fuzzy_match_entity_def extractOne_def example_scorer_def followup_stage_def day_stage_def
  keyword_stage_def building_stage_def exam_stage_def title_prefixes_def

text \<open>
  Claim C1 does not hold of the code. \<open>extract_entities\<close> always returns a dict that
  has the key \<open>day\<close>, with the value \<open>None\<close> when the utterance names no day, so
  \<open>entities.get('day', previous)\<close> yields \<open>None\<close> and not the previous value. Here the
  first turn sets the last day to \<open>Cuma\<close>; the second turn, \<open>thanks\<close>, names no day,
  and recording it clears the last day (and the last teacher stays unset), while the
  course survives only because follow-up resolution copied it into the entities.
\<close>

theorem empty_turn_clears_last_day:
  "last_day friday_turn = Some (pystr ''Cuma'') \<and>
   extract_entities ascii_lower example_scorer no_doc
     (init_bot ascii_lower two_course_rows) friday_turn (pystr ''thanks'') =
     Inr (dict_set (pystr ''course'') (Some (pystr ''CS101'')) empty_entities) \<and>
   last_day (snd (generate_response ascii_lower (\<lambda>q. pystr ''thanks'') 0 2
     (init_bot ascii_lower two_course_rows) friday_turn (pystr ''thanks'')
     (dict_set (pystr ''course'') (Some (pystr ''CS101'')) empty_entities))) = None"
proof -
  have a: "last_day friday_turn = Some (pystr ''Cuma'')"
    by (simp add: friday_turn_def update_context_def Let_def dict_eval pystr_def)
  have h: "history friday_turn =
             [\<lparr>query = pystr ''CS101 Cuma?'', intent = pystr ''class_schedule'',
               entities = dict_set (pystr ''day'') (Some (pystr ''Cuma''))
                  (dict_set (pystr ''course'') (Some (pystr ''CS101'')) empty_entities),
               timestamp = 1\<rparr>]"
    by (simp add: friday_turn_def update_context_def Let_def init_context_def)
  have b: "extract_entities ascii_lower example_scorer no_doc
     (init_bot ascii_lower two_course_rows) friday_turn (pystr ''thanks'') =
     Inr (dict_set (pystr ''course'') (Some (pystr ''CS101'')) empty_entities)"
    unfolding extract_entities_def h
    by (simp add: extract_eval two_course_rows_def dict_eval string_eval)
  have c: "last_day (snd (generate_response ascii_lower (\<lambda>q. pystr ''thanks'') 0 2
     (init_bot ascii_lower two_course_rows) friday_turn (pystr ''thanks'')
     (dict_set (pystr ''course'') (Some (pystr ''CS101'')) empty_entities))) = None"
    by (simp add: generate_response_def update_context_def Let_def dict_eval pystr_def)
  show ?thesis using a b c by (simp only: simp_thms)
qed

subsection \<open>Clarification prompt of the schedule intent\<close>

lemma class_schedule_neqs:
  "pystr ''class_schedule'' \<noteq> pystr ''greeting''"
  "pystr ''class_schedule'' \<noteq> pystr ''goodbye''"
  "pystr ''class_schedule'' \<noteq> pystr ''thanks''"
  by (simp_all add: pystr_def)

text \<open>
  Claim C7. When the intent is \<open>class_schedule\<close>, the entities carry no course (the
  key is absent, or its value is \<open>None\<close> or empty) and the context has no last course,
  \<open>generate_response\<close> returns exactly
  \<open>Which course's schedule would you like to know?\<close>.
\<close>

theorem class_schedule_asks_for_course:
  assumes "predict_intent lower model t = pystr ''class_schedule''"
    and "\<not> truthy (dict_get es (pystr ''course''))"
    and "last_course c = None"
  shows "fst (generate_response lower model r now b c t es) =
           Inr (pystr ''Which course'' @ [39] @ pystr ''s schedule would you like to know?'')"
proof -
  let ?c' = "update_context c t (pystr ''class_schedule'') es now"
  have lc: "last_course ?c' = dict_get es (pystr ''course'')"
    using assms(3) by (simp add: update_context_def Let_def dict_get_def)
  have "class_schedule b ?c' es =
          pystr ''Which course'' @ [39] @ pystr ''s schedule would you like to know?''"
    using assms(2) by (simp add: class_schedule_def Let_def lc py_or_def)
  then show ?thesis
    using assms(1) by (simp add: generate_response_def Let_def class_schedule_neqs)
qed

theorem class_schedule_asks_for_course_witness:
  "predict_intent ascii_lower (\<lambda>q. pystr ''class_schedule'') (pystr ''When is it?'') =
     pystr ''class_schedule'' \<and>
   \<not> truthy (dict_get empty_entities (pystr ''course'')) \<and>
   last_course init_context = None \<and>
   fst (generate_response ascii_lower (\<lambda>q. pystr ''class_schedule'') 0 0
          (init_bot ascii_lower two_course_rows) init_context
          (pystr ''When is it?'') empty_entities) =
     Inr (pystr ''Which course'' @ [39] @ pystr ''s schedule would you like to know?'')"
proof -
  have a: "predict_intent ascii_lower (\<lambda>q. pystr ''class_schedule'') (pystr ''When is it?'') =
             pystr ''class_schedule''"
    by (simp add: predict_intent_def)
  have b: "\<not> truthy (dict_get empty_entities (pystr ''course''))"
    by (simp add: dict_eval)
  have c: "last_course init_context = None" by (simp add: init_context_def)
  show ?thesis
    using a b c class_schedule_asks_for_course[OF a b c] by simp
qed

subsection \<open>Schedule conflicts\<close>






























subsection \<open>Exams without a date\<close>

lemma exam_info_neqs:
  "pystr ''exam_info'' \<noteq> pystr ''greeting''"
  "pystr ''exam_info'' \<noteq> pystr ''goodbye''"
  "pystr ''exam_info'' \<noteq> pystr ''thanks''"
  "pystr ''exam_info'' \<noteq> pystr ''class_schedule''"
  by (simp_all add: pystr_def)

lemmas exam_eval = generate_response_def predict_intent_def exam_info_def exam_rows_def
  init_bot_def Let_def undated_exam_def pystr_def dict_eval update_context_def ascii_lower_def
  init_context_def

text \<open>
  Claim C10, as stated, fails: the dataset has one Midterm row of \<open>CS101\<close> without a
  date, so the rows of the course with an exam type among Midterm, Final and Makeup
  are non-empty and all undated; with the entities asking for the \<open>final\<close>, the
  narrowing to that exam type leaves no row and the response is the not-found
  message, not the header.
\<close>

theorem undated_exams_counterexample:
  "exam_rows ascii_lower [undated_exam (pystr ''CS101'') (pystr ''Midterm'')] (pystr ''CS101'') None =
     [undated_exam (pystr ''CS101'') (pystr ''Midterm'')] \<and>
   Exam_Date (undated_exam (pystr ''CS101'') (pystr ''Midterm'')) = None \<and>
   fst (generate_response ascii_lower (\<lambda>q. pystr ''exam_info'') 0 0
          (init_bot ascii_lower [undated_exam (pystr ''CS101'') (pystr ''Midterm'')]) init_context
          (pystr ''CS101 final?'')
          (dict_set (pystr ''exam_type'') (Some (pystr ''final''))
             (dict_set (pystr ''course'') (Some (pystr ''CS101'')) empty_entities))) =
     Inr (pystr ''No exam info found for CS101.'')"
  by (simp add: exam_eval)

text \<open>
  Claim C10, amended. For the \<open>exam_info\<close> intent with a resolved course (the course
  of the entities, else the last course of the context once the turn is recorded),
  if the rows of that course with an exam type among Midterm, Final and Makeup,
  narrowed to the exam type of the entities when they carry one, are non-empty but
  all lack an exam date, \<open>generate_response\<close> returns only the header
  \<open>Exam info for {course}:\<close> behind its emoji, with no exam line, and not the
  not-found message.
\<close>

theorem undated_exams_header_only:
  assumes "predict_intent lower model t = pystr ''exam_info''"
    and "py_or (dict_get es (pystr ''course''))
           (dict_get_default es (pystr ''course'') (last_course c)) = Some course"
    and "course \<noteq> []"
    and "exam_rows lower (df b) course (dict_get es (pystr ''exam_type'')) \<noteq> []"
    and "\<forall>r \<in> set (exam_rows lower (df b) course (dict_get es (pystr ''exam_type''))).
           Exam_Date r = None"
  shows "fst (generate_response lower model r now b c t es) =
           Inr ([128221] @ pystr '' Exam info for '' @ course @ pystr '':'')"
proof -
  let ?c' = "update_context c t (pystr ''exam_info'') es now"
  let ?rows = "exam_rows lower (df b) course (dict_get es (pystr ''exam_type''))"
  have co: "py_or (dict_get es (pystr ''course'')) (last_course ?c') = Some course"
    using assms(2) by (simp add: last_course_update)
  have tr: "truthy (Some course)" using assms(3) by (simp add: truthy_def)
  have nolines: "concat (map (\<lambda>r. case Exam_Date r of
                     Some d \<Rightarrow> pystr ''- '' @ str_cell (Exam_Type r) @ pystr '' on '' @
                               format_date d @ pystr '' at '' @ format_time (Exam_Time r) @ [10]
                   | None \<Rightarrow> []) ?rows) = []"
    using assms(5) by simp
  have sp: "strip ([128221] @ pystr '' Exam info for '' @ course @ pystr '':'' @ [10]) =
            [128221] @ pystr '' Exam info for '' @ course @ pystr '':''"
    using strip_header[of 128221 58 "pystr '' Exam info for '' @ course"]
    by (simp add: isspace_def pystr_def)
  have "exam_info lower b ?c' es = [128221] @ pystr '' Exam info for '' @ course @ pystr '':''"
    unfolding exam_info_def Let_def co using tr assms(4) sp by (simp add: nolines)
  then show ?thesis
    using assms(1) by (simp add: generate_response_def Let_def exam_info_neqs)
qed

theorem undated_exams_header_only_witness:
  "fst (generate_response ascii_lower (\<lambda>q. pystr ''exam_info'') 0 0
          (init_bot ascii_lower [undated_exam (pystr ''CS101'') (pystr ''Midterm'')]) init_context
          (pystr ''CS101 midterm?'')
          (dict_set (pystr ''exam_type'') (Some (pystr ''midterm''))
             (dict_set (pystr ''course'') (Some (pystr ''CS101'')) empty_entities))) =
     Inr ([128221] @ pystr '' Exam info for CS101:'')"
proof -
  let ?es = "dict_set (pystr ''exam_type'') (Some (pystr ''midterm''))
             (dict_set (pystr ''course'') (Some (pystr ''CS101'')) empty_entities)"
  let ?b = "init_bot ascii_lower [undated_exam (pystr ''CS101'') (pystr ''Midterm'')]"
  have a: "predict_intent ascii_lower (\<lambda>q. pystr ''exam_info'') (pystr ''CS101 midterm?'') =
             pystr ''exam_info''"
    by (simp add: predict_intent_def)
  have b: "py_or (dict_get ?es (pystr ''course''))
           (dict_get_default ?es (pystr ''course'') (last_course init_context)) =
           Some (pystr ''CS101'')"
    by (simp add: exam_eval)
  have c: "pystr ''CS101'' \<noteq> []" by (simp add: pystr_def)
  have rows: "exam_rows ascii_lower (df ?b) (pystr ''CS101'') (dict_get ?es (pystr ''exam_type'')) =
              [undated_exam (pystr ''CS101'') (pystr ''Midterm'')]"
    by (simp add: exam_eval)
  have d: "exam_rows ascii_lower (df ?b) (pystr ''CS101'') (dict_get ?es (pystr ''exam_type'')) \<noteq> []"
    unfolding rows by simp
  have e: "\<forall>r \<in> set (exam_rows ascii_lower (df ?b) (pystr ''CS101'')
                        (dict_get ?es (pystr ''exam_type''))). Exam_Date r = None"
    unfolding rows by (simp add: undated_exam_def)
  show ?thesis
    using undated_exams_header_only[OF a b c d e] by (simp add: pystr_def)
qed

subsection \<open>Time cells\<close>

lemma load_row_times:
  "load_row td r = Inr x \<Longrightarrow>
     Time x = load_time_cell td (raw_Time r) \<and> Exam_Time x = load_time_cell td (raw_Exam_Time r)"
  by (auto simp: load_row_def split: parsed.splits)

lemma load_rows_all2:
  "load_rows td sheet = Inr rows \<Longrightarrow> list_all2 (\<lambda>r x. load_row td r = Inr x) sheet rows"
proof (induction sheet arbitrary: rows)
  case Nil
  then show ?case by simp
next
  case (Cons r rs)
  then show ?case by (auto split: sum.splits)
qed

lemma loader_coerces_every_cell:
  assumes "load_schedule_data td sheet = Inr rows"
  shows "length rows = length sheet \<and>
         (\<forall>i < length sheet.
            Time (rows ! i) = load_time_cell td (raw_Time (sheet ! i)) \<and>
            Exam_Time (rows ! i) = load_time_cell td (raw_Exam_Time (sheet ! i)))"
proof -
  have a: "list_all2 (\<lambda>r x. load_row td r = Inr x) sheet rows"
    using assms by (simp add: load_schedule_data_def load_rows_all2)
  then have l: "length rows = length sheet" by (simp add: list_all2_lengthD)
  have "\<forall>i < length sheet. load_row td (sheet ! i) = Inr (rows ! i)"
    using a by (simp add: list_all2_conv_all_nth)
  then show ?thesis using l load_row_times by blast
qed

lemma load_row_returns:
  "td (fillna (raw_Exam_Date r)) (pystr ''%d.%m.%Y'') \<noteq> Raises \<Longrightarrow> \<exists>x. load_row td r = Inr x"
  by (cases "td (fillna (raw_Exam_Date r)) (pystr ''%d.%m.%Y'')") (simp_all add: load_row_def)

lemma loader_returns:
  "\<forall>r \<in> set sheet. td (fillna (raw_Exam_Date r)) (pystr ''%d.%m.%Y'') \<noteq> Raises \<Longrightarrow>
     \<exists>rows. load_schedule_data td sheet = Inr rows"
  unfolding load_schedule_data_def
proof (induction sheet)
  case Nil
  show ?case by simp
next
  case (Cons r rs)
  then obtain x xs where "load_row td r = Inr x" "load_rows td rs = Inr xs"
    using load_row_returns[of td r] by auto
  then show ?case by simp
qed

lemma clean_time_range:
  assumes "45 \<notin> set start"
  shows "clean_time (Str (start @ 45 # rest)) =
           Str (strip (map (\<lambda>c. if c = 46 then 58 else c) start))"
proof -
  have ns: "\<not> isspace 45" by (simp add: isspace_def)
  have "45 \<in> set (lstrip (start @ 45 # rest))"
    unfolding lstrip_def using ns
    by (metis append_Cons dropWhile_append3 in_set_conv_decomp)
  then obtain x where "x \<in> set (lstrip (start @ 45 # rest))" "\<not> isspace x" using ns by blast
  then have "rstrip ([] @ lstrip (start @ 45 # rest)) \<noteq> []"
    by (metis append_Nil dropWhile_eq_Nil_conv rev_is_Nil_conv rstrip_def set_rev)
  then have nb: "strip (start @ 45 # rest) \<noteq> []" by (simp add: strip_def)
  have tk: "takeWhile (\<lambda>c. c \<noteq> 45) (map (\<lambda>c. if c = 46 then 58 else c) start @
              45 # map (\<lambda>c. if c = 46 then 58 else c) rest) =
            map (\<lambda>c. if c = 46 then 58 else c) start"
    using assms by (intro takeWhile_append2[THEN trans]) (auto simp: takeWhile_eq_all_conv)
  show ?thesis
    using nb tk by (simp add: clean_time_def Let_def replace_dots_def before_dash_def)
qed

lemma clean_time_plain:
  assumes "strip s \<noteq> []" and "45 \<notin> set s"
  shows "clean_time (Str s) = Str (map (\<lambda>c. if c = 46 then 58 else c) s)"
proof -
  have "45 \<notin> set (replace_dots s)" using assms(2) by (auto simp: replace_dots_def)
  then show ?thesis using assms(1) by (simp add: clean_time_def Let_def) (simp add: replace_dots_def)
qed

lemma unparseable_None:
  assumes "\<forall>d' tm'. td (clean_time (fillna c)) (pystr ''%H:%M:%S'') \<noteq> Timestamp d' tm'"
    and "\<forall>d' tm'. td (clean_time (fillna c)) (pystr ''%H:%M'') \<noteq> Timestamp d' tm'"
  shows "load_time_cell td c = None"
proof (cases "clean_time (fillna c)")
  case (Str v)
  with assms show ?thesis
    by (auto simp: load_time_cell_def to_time_obj_def split: parsed.splits)
next
  case (Other shown tv)
  then show ?thesis by (simp add: load_time_cell_def to_time_obj_def)
qed

lemma absent_None:
  assumes "c = None \<or> (\<exists>shown tv. c = Some (Other shown tv)) \<or>
           (\<exists>s'. c = Some (Str s') \<and> strip s' = [])"
  shows "load_time_cell td c = None"
proof -
  have e: "strip [] = []" by (simp add: strip_def lstrip_def rstrip_def)
  show ?thesis
    using assms e
    by (auto simp: load_time_cell_def fillna_def clean_time_def to_time_obj_def)
qed

lemma list_of_two: "length xs = 2 \<Longrightarrow> xs = [xs ! 0, xs ! 1]"
  by (auto simp: length_Suc_conv numeral_2_eq_2)

lemmas time_eval = load_time_cell_def fillna_def clean_time_def to_time_obj_def
  example_to_datetime_def replace_dots_def before_dash_def string_eval Let_def

text \<open>
  Claim C9. With any behaviour of \<open>pd.to_datetime\<close>: \<open>load_schedule_data\<close> returns
  a frame whenever the conversion of the exam dates does not raise, with one row per
  row of the sheet, and the Time and Exam Time of each row are the coerced cells of
  the sheet. A string with a dash is coerced as its part before the first dash, dots
  replaced by colons and trimmed; a non-blank string without a dash as the string
  with dots replaced. A string that parses as \<open>HH:MM:SS\<close> yields that time, and one
  that does not but parses as \<open>HH:MM\<close> yields that time. A cell that neither format
  parses (also when the parser raises), an empty cell, a blank string and a value
  that is not a string yield \<open>None\<close>; no time cell makes the loader raise.
\<close>

theorem time_cells_coerced:
  "(load_schedule_data td sheet = Inr rows \<longrightarrow>
      length rows = length sheet \<and>
      (\<forall>i < length sheet.
         Time (rows ! i) = load_time_cell td (raw_Time (sheet ! i)) \<and>
         Exam_Time (rows ! i) = load_time_cell td (raw_Exam_Time (sheet ! i)))) \<and>
   ((\<forall>r \<in> set sheet. td (fillna (raw_Exam_Date r)) (pystr ''%d.%m.%Y'') \<noteq> Raises) \<longrightarrow>
      (\<exists>rows'. load_schedule_data td sheet = Inr rows')) \<and>
   (45 \<notin> set start \<longrightarrow>
      load_time_cell td (Some (Str (start @ 45 # rest))) =
        to_time_obj td (Str (strip (map (\<lambda>c. if c = 46 then 58 else c) start)))) \<and>
   (strip s \<noteq> [] \<and> 45 \<notin> set s \<longrightarrow>
      load_time_cell td (Some (Str s)) =
        to_time_obj td (Str (map (\<lambda>c. if c = 46 then 58 else c) s))) \<and>
   (u \<noteq> [] \<and> td (Str u) (pystr ''%H:%M:%S'') = Timestamp d tm \<longrightarrow>
      to_time_obj td (Str u) = Some tm) \<and>
   (u \<noteq> [] \<and> td (Str u) (pystr ''%H:%M:%S'') = NaT \<and>
    td (Str u) (pystr ''%H:%M'') = Timestamp d tm \<longrightarrow>
      to_time_obj td (Str u) = Some tm) \<and>
   ((\<forall>d' tm'. td (clean_time (fillna c)) (pystr ''%H:%M:%S'') \<noteq> Timestamp d' tm') \<and>
    (\<forall>d' tm'. td (clean_time (fillna c)) (pystr ''%H:%M'') \<noteq> Timestamp d' tm') \<longrightarrow>
      load_time_cell td c = None) \<and>
   (c = None \<or> (\<exists>shown tv. c = Some (Other shown tv)) \<or>
    (\<exists>s'. c = Some (Str s') \<and> strip s' = []) \<longrightarrow>
      load_time_cell td c = None)"
proof -
  have c1: "load_schedule_data td sheet = Inr rows \<longrightarrow>
      length rows = length sheet \<and>
      (\<forall>i < length sheet.
         Time (rows ! i) = load_time_cell td (raw_Time (sheet ! i)) \<and>
         Exam_Time (rows ! i) = load_time_cell td (raw_Exam_Time (sheet ! i)))"
    using loader_coerces_every_cell[of td sheet rows] by blast
  have c2: "(\<forall>r \<in> set sheet. td (fillna (raw_Exam_Date r)) (pystr ''%d.%m.%Y'') \<noteq> Raises) \<longrightarrow>
      (\<exists>rows'. load_schedule_data td sheet = Inr rows')"
    using loader_returns[of sheet td] by blast
  have c3: "45 \<notin> set start \<longrightarrow>
      load_time_cell td (Some (Str (start @ 45 # rest))) =
        to_time_obj td (Str (strip (map (\<lambda>c. if c = 46 then 58 else c) start)))"
    by (simp add: load_time_cell_def fillna_def clean_time_range)
  have c4: "strip s \<noteq> [] \<and> 45 \<notin> set s \<longrightarrow>
      load_time_cell td (Some (Str s)) =
        to_time_obj td (Str (map (\<lambda>c. if c = 46 then 58 else c) s))"
    by (simp add: load_time_cell_def fillna_def clean_time_plain)
  have c5: "u \<noteq> [] \<and> td (Str u) (pystr ''%H:%M:%S'') = Timestamp d tm \<longrightarrow>
      to_time_obj td (Str u) = Some tm"
    by (simp add: to_time_obj_def)
  have c6: "u \<noteq> [] \<and> td (Str u) (pystr ''%H:%M:%S'') = NaT \<and>
    td (Str u) (pystr ''%H:%M'') = Timestamp d tm \<longrightarrow>
      to_time_obj td (Str u) = Some tm"
    by (simp add: to_time_obj_def)
  have c7: "(\<forall>d' tm'. td (clean_time (fillna c)) (pystr ''%H:%M:%S'') \<noteq> Timestamp d' tm') \<and>
    (\<forall>d' tm'. td (clean_time (fillna c)) (pystr ''%H:%M'') \<noteq> Timestamp d' tm') \<longrightarrow>
      load_time_cell td c = None"
    using unparseable_None[of td c] by blast
  have c8: "c = None \<or> (\<exists>shown tv. c = Some (Other shown tv)) \<or>
    (\<exists>s'. c = Some (Str s') \<and> strip s' = []) \<longrightarrow>
      load_time_cell td c = None"
    using absent_None[of c td] by blast
  show ?thesis using c1 c2 c3 c4 c5 c6 c7 c8 by (intro conjI)
qed

theorem time_cells_coerced_witness:
  "(\<exists>rows. load_schedule_data example_to_datetime example_sheet = Inr rows \<and>
           map Time rows = [Some \<lparr>hour = 8, minute = 0, second = 0\<rparr>, None] \<and>
           map Exam_Time rows = [None, Some \<lparr>hour = 9, minute = 30, second = 0\<rparr>]) \<and>
   load_time_cell example_to_datetime (Some (Str (pystr ''08:00-10:00''))) =
     Some \<lparr>hour = 8, minute = 0, second = 0\<rparr> \<and>
   load_time_cell example_to_datetime (Some (Str (pystr ''08.00''))) =
     Some \<lparr>hour = 8, minute = 0, second = 0\<rparr> \<and>
   load_time_cell example_to_datetime (Some (Str (pystr ''09:30:00''))) =
     Some \<lparr>hour = 9, minute = 30, second = 0\<rparr> \<and>
   load_time_cell example_to_datetime (Some (Str (pystr ''soon''))) = None \<and>
   load_time_cell example_to_datetime (Some (Other (pystr ''8.0'') True)) = None \<and>
   load_time_cell example_to_datetime None = None"
proof -
  let ?td = example_to_datetime
  let ?eight = "\<lparr>hour = 8, minute = 0, second = 0\<rparr>"
  let ?half = "\<lparr>hour = 9, minute = 30, second = 0\<rparr>"
  let ?day0 = "\<lparr>year = 1900, month = 1, dayofmonth = 1\<rparr>"
  have dots: "map (\<lambda>c. if c = 46 then 58 else c) (pystr ''08.00'') = pystr ''08:00''"
    "map (\<lambda>c. if c = 46 then 58 else c) (pystr ''09:30:00'') = pystr ''09:30:00''"
    "strip (map (\<lambda>c. if c = 46 then 58 else c) (pystr ''08:00'')) = pystr ''08:00''"
    by (simp_all add: string_eval)
  have range: "pystr ''08:00'' @ 45 # pystr ''10:00'' = pystr ''08:00-10:00''"
    "45 \<notin> set (pystr ''08:00'')"
    by (simp_all add: pystr_def)
  have plain: "strip (pystr ''08.00'') \<noteq> [] \<and> 45 \<notin> set (pystr ''08.00'')"
    "strip (pystr ''09:30:00'') \<noteq> [] \<and> 45 \<notin> set (pystr ''09:30:00'')"
    by (simp_all add: string_eval)
  have p1: "pystr ''08:00'' \<noteq> [] \<and> ?td (Str (pystr ''08:00'')) (pystr ''%H:%M:%S'') = NaT \<and>
            ?td (Str (pystr ''08:00'')) (pystr ''%H:%M'') = Timestamp ?day0 ?eight"
    by (simp add: example_to_datetime_def pystr_def)
  have p2: "pystr ''09:30:00'' \<noteq> [] \<and>
            ?td (Str (pystr ''09:30:00'')) (pystr ''%H:%M:%S'') = Timestamp ?day0 ?half"
    by (simp add: example_to_datetime_def pystr_def)
  have n: "(\<forall>d' tm'. ?td (clean_time (fillna (Some (Str (pystr ''soon'')))))
                        (pystr ''%H:%M:%S'') \<noteq> Timestamp d' tm') \<and>
           (\<forall>d' tm'. ?td (clean_time (fillna (Some (Str (pystr ''soon'')))))
                        (pystr ''%H:%M'') \<noteq> Timestamp d' tm')"
    by (auto simp: time_eval)
  have e8: "to_time_obj ?td (Str (pystr ''08:00'')) = Some ?eight"
    using time_cells_coerced[where td = ?td and u = "pystr ''08:00''" and d = ?day0
        and tm = ?eight, THEN conjunct2, THEN conjunct2, THEN conjunct2, THEN conjunct2,
        THEN conjunct2, THEN conjunct1] p1
    by (rule mp)
  have e9: "to_time_obj ?td (Str (pystr ''09:30:00'')) = Some ?half"
    using time_cells_coerced[where td = ?td and u = "pystr ''09:30:00''" and d = ?day0
        and tm = ?half, THEN conjunct2, THEN conjunct2, THEN conjunct2, THEN conjunct2,
        THEN conjunct1] p2
    by (rule mp)
  have "load_time_cell ?td (Some (Str (pystr ''08:00'' @ 45 # pystr ''10:00''))) =
          to_time_obj ?td (Str (strip (map (\<lambda>c. if c = 46 then 58 else c) (pystr ''08:00''))))"
    using time_cells_coerced[where td = ?td and start = "pystr ''08:00''"
        and rest = "pystr ''10:00''", THEN conjunct2, THEN conjunct2, THEN conjunct1] range(2)
    by (rule mp)
  then have w1: "load_time_cell ?td (Some (Str (pystr ''08:00-10:00''))) = Some ?eight"
    by (simp only: range(1) dots(3) e8)
  have "load_time_cell ?td (Some (Str (pystr ''08.00''))) =
          to_time_obj ?td (Str (map (\<lambda>c. if c = 46 then 58 else c) (pystr ''08.00'')))"
    using time_cells_coerced[where td = ?td and s = "pystr ''08.00''",
        THEN conjunct2, THEN conjunct2, THEN conjunct2, THEN conjunct1] plain(1)
    by (rule mp)
  then have w2: "load_time_cell ?td (Some (Str (pystr ''08.00''))) = Some ?eight"
    by (simp only: dots(1) e8)
  have "load_time_cell ?td (Some (Str (pystr ''09:30:00''))) =
          to_time_obj ?td (Str (map (\<lambda>c. if c = 46 then 58 else c) (pystr ''09:30:00'')))"
    using time_cells_coerced[where td = ?td and s = "pystr ''09:30:00''",
        THEN conjunct2, THEN conjunct2, THEN conjunct2, THEN conjunct1] plain(2)
    by (rule mp)
  then have w3: "load_time_cell ?td (Some (Str (pystr ''09:30:00''))) = Some ?half"
    by (simp only: dots(2) e9)
  have w4: "load_time_cell ?td (Some (Str (pystr ''soon''))) = None"
    using time_cells_coerced[where td = ?td and c = "Some (Str (pystr ''soon''))",
        THEN conjunct2, THEN conjunct2, THEN conjunct2, THEN conjunct2, THEN conjunct2,
        THEN conjunct2, THEN conjunct1] n
    by (rule mp)
  have h5: "Some (Other (pystr ''8.0'') True) = None \<or>
            (\<exists>shown tv. Some (Other (pystr ''8.0'') True) = Some (Other shown tv)) \<or>
            (\<exists>s'. Some (Other (pystr ''8.0'') True) = Some (Str s') \<and> strip s' = [])"
    by blast
  have w5: "load_time_cell ?td (Some (Other (pystr ''8.0'') True)) = None"
    using time_cells_coerced[where td = ?td and c = "Some (Other (pystr ''8.0'') True)",
        THEN conjunct2, THEN conjunct2, THEN conjunct2, THEN conjunct2, THEN conjunct2,
        THEN conjunct2, THEN conjunct2] h5
    by (rule mp)
  have w6: "load_time_cell ?td None = None"
    using time_cells_coerced[where td = ?td and c = None,
        THEN conjunct2, THEN conjunct2, THEN conjunct2, THEN conjunct2, THEN conjunct2,
        THEN conjunct2, THEN conjunct2]
    by simp
  have noraise: "\<forall>r \<in> set example_sheet.
                   ?td (fillna (raw_Exam_Date r)) (pystr ''%d.%m.%Y'') \<noteq> Raises"
    by (simp add: example_sheet_def example_to_datetime_def fillna_def pystr_def)
  have "\<exists>rows'. load_schedule_data ?td example_sheet = Inr rows'"
    using time_cells_coerced[where td = ?td and sheet = example_sheet,
        THEN conjunct2, THEN conjunct1] noraise
    by (rule mp)
  then obtain rows where rows: "load_schedule_data ?td example_sheet = Inr rows" by blast
  have lc: "length rows = length example_sheet \<and>
      (\<forall>i < length example_sheet.
         Time (rows ! i) = load_time_cell ?td (raw_Time (example_sheet ! i)) \<and>
         Exam_Time (rows ! i) = load_time_cell ?td (raw_Exam_Time (example_sheet ! i)))"
    using time_cells_coerced[where td = ?td and sheet = example_sheet and rows = rows,
        THEN conjunct1] rows
    by (rule mp)
  then have l2: "length rows = 2" by (simp add: example_sheet_def)
  have len2: "0 < length example_sheet" "1 < length example_sheet"
    by (simp_all add: example_sheet_def)
  have i0: "Time (rows ! 0) = load_time_cell ?td (raw_Time (example_sheet ! 0)) \<and>
            Exam_Time (rows ! 0) = load_time_cell ?td (raw_Exam_Time (example_sheet ! 0))"
    using lc[THEN conjunct2, THEN spec, of 0] len2(1) by (rule mp)
  have i1: "Time (rows ! 1) = load_time_cell ?td (raw_Time (example_sheet ! 1)) \<and>
            Exam_Time (rows ! 1) = load_time_cell ?td (raw_Exam_Time (example_sheet ! 1))"
    using lc[THEN conjunct2, THEN spec, of 1] len2(2) by (rule mp)
  obtain a b where ab: "rows = [a, b]" using list_of_two[OF l2] by blast
  have r0: "raw_Time (example_sheet ! 0) = Some (Str (pystr ''08:00-10:00''))"
    "raw_Exam_Time (example_sheet ! 0) = None"
    by (simp_all add: example_sheet_def)
  have r1: "raw_Time (example_sheet ! 1) = Some (Str (pystr ''soon''))"
    "raw_Exam_Time (example_sheet ! 1) = Some (Str (pystr ''09:30:00''))"
    by (simp_all add: example_sheet_def)
  have c0: "Time a = Some ?eight" "Exam_Time a = None"
    using i0 unfolding r0 w1 w6 ab by simp_all
  have c1: "Time b = None" "Exam_Time b = Some ?half"
    using i1 unfolding r1 w3 w4 ab by simp_all
  have m: "map Time rows = [Some ?eight, None]" "map Exam_Time rows = [None, Some ?half]"
    unfolding ab using c0 c1 by simp_all
  have ex: "\<exists>rows. load_schedule_data ?td example_sheet = Inr rows \<and>
           map Time rows = [Some ?eight, None] \<and> map Exam_Time rows = [None, Some ?half]"
    by (intro exI[of _ rows] conjI rows m)
  show ?thesis by (intro conjI ex w1 w2 w3 w4 w5 w6)
qed

end
